theory Spec2Isabelle
  imports Complex_Main
begin

section \<open>Conventions of the embedding\<close>

text \<open>
  The trader engine (\<^verbatim>\<open>backend/pkg/trader/auto_trader.go\<close>,
  \<^verbatim>\<open>margin_safety_check.go\<close>, \<^verbatim>\<open>constants.go\<close>) and the trade table
  (\<^verbatim>\<open>backend/pkg/storage/trade.go\<close>) are embedded as HOL functions.

  \<^item> A Go \<^verbatim>\<open>float64\<close> is a \<^typ>\<open>real\<close>: rounding, infinities and NaN are not
    part of the model. Where the source divides by a quantity that can be zero the
    theorems below say so in their hypotheses.
  \<^item> A Go \<^verbatim>\<open>int\<close>/\<^verbatim>\<open>int64\<close> is an \<^typ>\<open>int\<close> (no value in the modelled
    code comes near 64 bits).
  \<^item> A \<^verbatim>\<open>time.Time\<close> is an \<^typ>\<open>int\<close>: nanoseconds since the Unix epoch; a
    \<^verbatim>\<open>time.Duration\<close> is an \<^typ>\<open>int\<close> of nanoseconds as in Go.
  \<^item> Calls that leave the process (exchange, market data, SQL driver failures, the
    clock) are inputs of the modelled function: the caller of the model supplies what
    the call returned.
  \<^item> An \<^verbatim>\<open>error\<close> return is the \<open>Inl\<close> of a sum type.
\<close>

type_synonym time = int
type_synonym duration = int

definition Second :: duration where "Second = 1000000000"
definition Minute :: duration where "Minute = 60 * Second"
definition Hour :: duration where "Hour = 60 * Minute"

section \<open>Decisions (decision/engine.go)\<close>

record Decision =
  Symbol :: string
  Action :: string
  Leverage :: int
  PositionSizeUSD :: real
  StopLoss :: real
  TakeProfit :: real
  Confidence :: int
  RiskUSD :: real
  Reasoning :: string
  ExitReasoning :: string

section \<open>Ordering and de-duplication of the decisions of a cycle\<close>

text \<open>\<^verbatim>\<open>getActionPriority\<close>, the closure inside \<^verbatim>\<open>sortDecisionsByPriority\<close>.\<close>

definition getActionPriority :: "string \<Rightarrow> int" where
  "getActionPriority action =
     (if action = ''close_long'' \<or> action = ''close_short'' then 1
      else if action = ''open_long'' \<or> action = ''open_short'' then 2
      else if action = ''hold'' \<or> action = ''wait'' then 3
      else 999)"

text \<open>
  One step of the inner loop: \<^verbatim>\<open>if prio(sorted[i]) > prio(sorted[j]) { swap }\<close>.
  Both indices are in range whenever the loops call it.
\<close>

definition swapIfGreater :: "nat \<Rightarrow> Decision list \<Rightarrow> nat \<Rightarrow> Decision list" where
  "swapIfGreater i ds j =
     (if getActionPriority (Action (ds ! i)) > getActionPriority (Action (ds ! j))
      then ds[i := ds ! j, j := ds ! i]
      else ds)"

text \<open>
  \<^verbatim>\<open>for j := i + 1; j < len(sorted); j++\<close> and
  \<^verbatim>\<open>for i := 0; i < len(sorted)-1; i++\<close>: the bounds never change (a swap keeps
  the length), so each loop is a fold over its index range.
\<close>

definition sortInner :: "Decision list \<Rightarrow> nat \<Rightarrow> Decision list" where
  "sortInner ds i = foldl (swapIfGreater i) ds [i + 1 ..< length ds]"

definition sortDecisionsByPriority :: "Decision list \<Rightarrow> Decision list" where
  "sortDecisionsByPriority decisions =
     (if length decisions \<le> 1 then decisions
      else foldl sortInner decisions [0 ..< length decisions - 1])"

text \<open>
  \<^verbatim>\<open>deduplicateDecisions\<close>. \<^verbatim>\<open>dedupActions\<close> is the two-entry map; the first pass
  fills \<^verbatim>\<open>lastIndexMap\<close> (a later index overwrites an earlier one), the second pass
  keeps a de-duplicated action only at the index stored for its key. Reading a key
  that is absent gives Go's zero value \<open>0\<close>; every key read here was written by the
  first pass.
\<close>

definition dedupActions :: "string \<Rightarrow> bool" where
  "dedupActions a = (a = ''update_sl'' \<or> a = ''update_tp'')"

definition dedupKey :: "Decision \<Rightarrow> string" where
  "dedupKey d = Symbol d @ ''_'' @ Action d"

fun lastIndexPass :: "(string \<rightharpoonup> nat) \<Rightarrow> nat \<Rightarrow> Decision list \<Rightarrow> (string \<rightharpoonup> nat)" where
  "lastIndexPass m i [] = m"
| "lastIndexPass m i (d # ds) =
     lastIndexPass (if dedupActions (Action d) then m(dedupKey d \<mapsto> i) else m) (Suc i) ds"

definition lookupIndex :: "(string \<rightharpoonup> nat) \<Rightarrow> string \<Rightarrow> nat" where
  "lookupIndex m k = (case m k of None \<Rightarrow> 0 | Some i \<Rightarrow> i)"

fun keepPass :: "(string \<rightharpoonup> nat) \<Rightarrow> nat \<Rightarrow> Decision list \<Rightarrow> Decision list" where
  "keepPass m i [] = []"
| "keepPass m i (d # ds) =
     (if dedupActions (Action d)
      then (if lookupIndex m (dedupKey d) = i then d # keepPass m (Suc i) ds
            else keepPass m (Suc i) ds)
      else d # keepPass m (Suc i) ds)"

definition deduplicateDecisions :: "Decision list \<Rightarrow> Decision list" where
  "deduplicateDecisions decisions =
     (if length decisions \<le> 1 then decisions
      else keepPass (lastIndexPass Map.empty 0 decisions) 0 decisions)"

text \<open>Steps 7 and 7.5 of \<^verbatim>\<open>runCycle\<close>: sort, then de-duplicate.\<close>

definition decisionPipeline :: "Decision list \<Rightarrow> Decision list" where
  "decisionPipeline decisions = deduplicateDecisions (sortDecisionsByPriority decisions)"


section \<open>Records of the audit log (logger package)\<close>

text \<open>
  \<^verbatim>\<open>logger.DecisionAction\<close>. Fields that share a name with a field of
  \<^verbatim>\<open>Decision\<close> carry the prefix \<open>a\<close>.
\<close>

record DecisionAction =
  aAction :: string
  aSymbol :: string
  Quantity :: real
  aLeverage :: int
  Price :: real
  OrderID :: int
  Timestamp :: time
  aSuccess :: bool
  aError :: string
  aIsForced :: bool
  aForcedReason :: string

text \<open>
  A row of the decision table as the recorder reads it back: the \<^verbatim>\<open>decisions\<close>
  column is JSON; \<open>None\<close> stands for a column that \<^verbatim>\<open>json.Unmarshal\<close> rejects.
\<close>

record StoredDecisionRecord =
  CycleNumber :: int
  rTimestamp :: time
  rDecisions :: "DecisionAction list option"

section \<open>The trade table (storage/trade.go)\<close>

text \<open>
  \<^verbatim>\<open>storage.TradeRecord\<close>, which is also the row of table \<^verbatim>\<open>trades\<close>. The
  \<^verbatim>\<open>duration\<close> column holds the text of a \<^verbatim>\<open>time.Duration\<close>; the model keeps the
  duration itself. \<^verbatim>\<open>close_time\<close> is nullable: \<open>None\<close> is SQL NULL.
\<close>

record TradeRecord =
  TradeID :: string
  tSymbol :: string
  Side :: string
  OpenTime :: time
  OpenPrice :: real
  OpenQuantity :: real
  OpenLeverage :: int
  OpenOrderID :: int
  OpenReason :: string
  OpenCycleNum :: int
  CloseTime :: "time option"
  ClosePrice :: real
  CloseQuantity :: real
  CloseOrderID :: int
  CloseReason :: string
  CloseCycleNum :: int
  IsForced :: bool
  ForcedReason :: string
  Duration :: duration
  PositionValue :: real
  MarginUsed :: real
  PnL :: real
  PnLPct :: real
  WasStopLoss :: bool
  Success :: bool
  Error :: string
  EntryLogic :: string
  ExitLogic :: string
  UpdateSLLogic :: string
  UpdateTPLogic :: string
  CloseLogic :: string
  ForcedCloseLogic :: string

datatype storage_error =
    InsertFailed    \<comment> \<open>\<^verbatim>\<open>INSERT\<close> rejected by a constraint of the table\<close>
  | DriverFailed    \<comment> \<open>any other failure reported by the SQL driver\<close>

type_synonym trade_table = "TradeRecord list"

text \<open>
  The table is declared with \<^verbatim>\<open>trade_id TEXT PRIMARY KEY\<close> and
  \<^verbatim>\<open>UNIQUE(symbol, open_time)\<close>: an \<^verbatim>\<open>INSERT\<close> that repeats either is rejected.
\<close>

definition sameKey :: "TradeRecord \<Rightarrow> TradeRecord \<Rightarrow> bool" where
  "sameKey t r = (tSymbol r = tSymbol t \<and> OpenTime r = OpenTime t)"

definition insertConflict :: "trade_table \<Rightarrow> TradeRecord \<Rightarrow> bool" where
  "insertConflict db t = (filter (\<lambda>r. TradeID r = TradeID t \<or> sameKey t r) db \<noteq> [])"

text \<open>\<^verbatim>\<open>LogTrade\<close>: one \<^verbatim>\<open>INSERT\<close> of every column of the record.\<close>

definition LogTrade :: "trade_table \<Rightarrow> TradeRecord \<Rightarrow> (storage_error + unit) \<times> trade_table" where
  "LogTrade db trade =
     (if insertConflict db trade then (Inl InsertFailed, db)
      else (Inr (), db @ [trade]))"

text \<open>
  \<^verbatim>\<open>CreateTrade\<close>: an \<^verbatim>\<open>INSERT\<close> of the open-side columns only; the others take the
  defaults of the table (NULL close time, zero numbers, NULL texts read as empty).
\<close>

definition openSideOnly :: "TradeRecord \<Rightarrow> TradeRecord" where
  "openSideOnly t =
     t\<lparr>CloseTime := None, ClosePrice := 0, CloseQuantity := 0, CloseOrderID := 0,
       CloseReason := [], CloseCycleNum := 0, IsForced := False, ForcedReason := [],
       Duration := 0, PnL := 0, PnLPct := 0, WasStopLoss := False, Success := False,
       Error := [], UpdateSLLogic := [], UpdateTPLogic := [], CloseLogic := [],
       ForcedCloseLogic := []\<rparr>"

definition CreateTrade :: "trade_table \<Rightarrow> TradeRecord \<Rightarrow> (storage_error + unit) \<times> trade_table" where
  "CreateTrade db trade =
     (if insertConflict db trade then (Inl InsertFailed, db)
      else (Inr (), db @ [openSideOnly trade]))"

text \<open>
  \<^verbatim>\<open>UpdateTrade\<close>: the \<^verbatim>\<open>UPDATE\<close> is assembled from the non-empty logic fields and,
  when \<^verbatim>\<open>CloseTime\<close> is given, the close columns. With nothing to set it returns
  without touching the table. The statement addresses the row by
  \<^verbatim>\<open>symbol = ? AND open_time = ?\<close>; updating no row is not an error.
\<close>

definition applyUpdate :: "TradeRecord \<Rightarrow> TradeRecord \<Rightarrow> TradeRecord" where
  "applyUpdate trade r =
     (let r1 = (if UpdateSLLogic trade \<noteq> [] then r\<lparr>UpdateSLLogic := UpdateSLLogic trade\<rparr> else r);
          r2 = (if UpdateTPLogic trade \<noteq> [] then r1\<lparr>UpdateTPLogic := UpdateTPLogic trade\<rparr> else r1)
      in case CloseTime trade of
           None \<Rightarrow> r2
         | Some ct \<Rightarrow>
             (let r3 = (if IsForced trade
                        then (if ForcedCloseLogic trade \<noteq> []
                              then r2\<lparr>ForcedCloseLogic := ForcedCloseLogic trade\<rparr> else r2)
                        else (if CloseLogic trade \<noteq> []
                              then r2\<lparr>CloseLogic := CloseLogic trade\<rparr> else r2))
              in r3\<lparr>CloseTime := Some ct, ClosePrice := ClosePrice trade,
                    CloseQuantity := CloseQuantity trade, CloseOrderID := CloseOrderID trade,
                    CloseReason := CloseReason trade, CloseCycleNum := CloseCycleNum trade,
                    IsForced := IsForced trade, ForcedReason := ForcedReason trade,
                    Duration := Duration trade, PnL := PnL trade, PnLPct := PnLPct trade,
                    WasStopLoss := WasStopLoss trade, Success := Success trade,
                    Error := Error trade\<rparr>))"

definition nothingToUpdate :: "TradeRecord \<Rightarrow> bool" where
  "nothingToUpdate trade =
     (UpdateSLLogic trade = [] \<and> UpdateTPLogic trade = [] \<and> CloseTime trade = None)"

definition UpdateTrade :: "trade_table \<Rightarrow> TradeRecord \<Rightarrow> (storage_error + unit) \<times> trade_table" where
  "UpdateTrade db trade =
     (if nothingToUpdate trade then (Inr (), db)
      else (Inr (), map (\<lambda>r. if sameKey trade r then applyUpdate trade r else r) db))"

text \<open>\<^verbatim>\<open>CreateOrUpdateTrade\<close>: exact match on \<^verbatim>\<open>(symbol, open_time)\<close>.\<close>

definition CreateOrUpdateTrade :: "trade_table \<Rightarrow> TradeRecord \<Rightarrow> (storage_error + unit) \<times> trade_table" where
  "CreateOrUpdateTrade db trade =
     (if filter (sameKey trade) db \<noteq> [] then UpdateTrade db trade else CreateTrade db trade)"

text \<open>
  \<^verbatim>\<open>GetOpenTradeByTime\<close>: rows of the symbol whose open time lies within ten seconds
  of the argument, the nearest first, \<^verbatim>\<open>LIMIT 1\<close>. The query has no condition on the
  side. Among rows at the same distance SQL does not fix the order; the model takes
  the earliest in table order.
\<close>

fun nearest :: "time \<Rightarrow> TradeRecord list \<Rightarrow> TradeRecord option" where
  "nearest t [] = None"
| "nearest t (r # rs) =
     (case nearest t rs of
        None \<Rightarrow> Some r
      | Some r' \<Rightarrow> if \<bar>OpenTime r - t\<bar> \<le> \<bar>OpenTime r' - t\<bar> then Some r else Some r')"

definition GetOpenTradeByTime :: "trade_table \<Rightarrow> string \<Rightarrow> time \<Rightarrow> TradeRecord option" where
  "GetOpenTradeByTime db symbol openTime =
     nearest openTime
       (filter (\<lambda>r. tSymbol r = symbol \<and> openTime - 10 * Second \<le> OpenTime r
                    \<and> OpenTime r \<le> openTime + 10 * Second) db)"

text \<open>
  \<^verbatim>\<open>GetLatestTrades\<close>: the \<open>n\<close> closed rows with the latest close time, returned
  oldest first (the function reverses the descending result).
\<close>

definition closeTimeOf :: "TradeRecord \<Rightarrow> time" where
  "closeTimeOf r = (case CloseTime r of None \<Rightarrow> 0 | Some t \<Rightarrow> t)"

definition GetLatestTrades :: "trade_table \<Rightarrow> nat \<Rightarrow> TradeRecord list" where
  "GetLatestTrades db n =
     rev (take n (rev (sort_key closeTimeOf (filter (\<lambda>r. CloseTime r \<noteq> None) db))))"

section \<open>Building a trade record (buildTradeRecord)\<close>

text \<open>\<^verbatim>\<open>%d\<close> of \<^verbatim>\<open>fmt.Sprintf\<close>: the decimal digits of an integer.\<close>

definition digitChar :: "nat \<Rightarrow> char" where
  "digitChar d = ''0123456789'' ! d"

fun showNat :: "nat \<Rightarrow> string" where
  "showNat n = (if n < 10 then [digitChar n] else showNat (n div 10) @ [digitChar (n mod 10)])"

declare showNat.simps [simp del]

definition showInt :: "int \<Rightarrow> string" where
  "showInt i = (if i < 0 then CHR ''-'' # showNat (nat (- i)) else showNat (nat i))"

text \<open>\<^verbatim>\<open>Time.Unix()\<close>: whole seconds since the epoch.\<close>

definition Unix :: "time \<Rightarrow> int" where
  "Unix t = t div Second"

text \<open>
  \<^verbatim>\<open>buildTradeRecord\<close>, followed by the field-by-field copy into a
  \<^verbatim>\<open>storage.TradeRecord\<close> that each caller performs before \<^verbatim>\<open>LogTrade\<close> (the six
  logic texts are not copied and stay empty). Any side other than \<^verbatim>\<open>"long"\<close> takes
  the short formula. \<^verbatim>\<open>float64(openAction.Leverage)\<close> may be zero: then Go's
  \<^verbatim>\<open>marginUsed\<close> is infinite or NaN and \<^verbatim>\<open>pnlPct\<close> ends as \<open>0\<close>; the model, where
  \<open>x / 0 = 0\<close>, gives \<open>marginUsed = 0\<close> and \<open>pnlPct = 0\<close>.
\<close>

definition buildTradeRecord ::
  "string \<Rightarrow> string \<Rightarrow> DecisionAction \<Rightarrow> DecisionAction \<Rightarrow> int \<Rightarrow> int \<Rightarrow> bool \<Rightarrow> string
     \<Rightarrow> string \<Rightarrow> string \<Rightarrow> TradeRecord" where
  "buildTradeRecord symbol side openAction closeAction openCycleNum closeCycleNum isForced
       forcedReason openReason closeReason =
     (let pnl = (if side = ''long''
                 then Quantity openAction * (Price closeAction - Price openAction)
                 else Quantity openAction * (Price openAction - Price closeAction));
          positionValue = Quantity openAction * Price openAction;
          marginUsed = positionValue / real_of_int (aLeverage openAction);
          pnlPct = (if marginUsed > 0 then (pnl / marginUsed) * 100 else 0);
          dur = Timestamp closeAction - Timestamp openAction;
          tradeID = symbol @ ''_'' @ side @ ''_'' @ showInt (Unix (Timestamp openAction))
      in \<lparr>TradeID = tradeID, tSymbol = symbol, Side = side,
          OpenTime = Timestamp openAction, OpenPrice = Price openAction,
          OpenQuantity = Quantity openAction, OpenLeverage = aLeverage openAction,
          OpenOrderID = OrderID openAction, OpenReason = openReason,
          OpenCycleNum = openCycleNum,
          CloseTime = Some (Timestamp closeAction), ClosePrice = Price closeAction,
          CloseQuantity = Quantity closeAction, CloseOrderID = OrderID closeAction,
          CloseReason = closeReason, CloseCycleNum = closeCycleNum,
          IsForced = isForced, ForcedReason = forcedReason, Duration = dur,
          PositionValue = positionValue, MarginUsed = marginUsed,
          PnL = pnl, PnLPct = pnlPct,
          WasStopLoss = (isForced \<and> pnl < 0),
          Success = (aSuccess openAction \<and> aSuccess closeAction),
          Error = aError closeAction,
          EntryLogic = [], ExitLogic = [], UpdateSLLogic = [], UpdateTPLogic = [],
          CloseLogic = [], ForcedCloseLogic = []\<rparr>)"

section \<open>The position-logic table and its write-through wrapper\<close>

text \<open>
  \<^verbatim>\<open>PositionLogic\<close>: the stop and take prices, the first-seen time and the two logic
  documents of one \<^verbatim>\<open>(symbol, side)\<close>. Of an \<^verbatim>\<open>EntryLogic\<close>/\<^verbatim>\<open>ExitLogic\<close> the
  model keeps the reasoning text (\<open>None\<close> is the nil pointer, or SQL NULL).
\<close>

record PositionLogic =
  lEntryLogic :: "string option"
  lExitLogic :: "string option"
  lStopLoss :: real
  lTakeProfit :: real
  FirstSeenTime :: int

definition emptyLogic :: PositionLogic where
  "emptyLogic = \<lparr>lEntryLogic = None, lExitLogic = None, lStopLoss = 0, lTakeProfit = 0,
                  FirstSeenTime = 0\<rparr>"

text \<open>
  \<^verbatim>\<open>PositionLogicWrapper\<close>: the table (\<^verbatim>\<open>storage\<close>, keyed by symbol and side) and the
  in-memory \<^verbatim>\<open>cache\<close> (keyed by \<^verbatim>\<open>symbol + "_" + side\<close>). Each function below takes
  one flag per SQL statement it issues: \<open>True\<close> when the driver executed it.
\<close>

record PositionLogicWrapper =
  storage :: "string \<times> string \<rightharpoonup> PositionLogic"
  cache :: "string \<rightharpoonup> PositionLogic"

definition posKeyOf :: "string \<Rightarrow> string \<Rightarrow> string" where
  "posKeyOf symbol side = symbol @ ''_'' @ side"

text \<open>\<^verbatim>\<open>PositionLogicStorage.GetLogic\<close>.\<close>

definition storageGetLogic ::
  "PositionLogicWrapper \<Rightarrow> string \<Rightarrow> string \<Rightarrow> bool \<Rightarrow> storage_error + PositionLogic option" where
  "storageGetLogic w symbol side ok =
     (if ok then Inr (storage w (symbol, side)) else Inl DriverFailed)"

text \<open>
  \<^verbatim>\<open>PositionLogicWrapper.GetLogic\<close>: always reads the table; on a failed read or a
  missing row it answers from the cache; otherwise it converts the row (the
  first-seen time is not part of the converted value) and stores it in the cache.
\<close>

definition GetLogic ::
  "PositionLogicWrapper \<Rightarrow> string \<Rightarrow> string \<Rightarrow> bool \<Rightarrow> PositionLogic option \<times> PositionLogicWrapper" where
  "GetLogic w symbol side ok =
     (case storageGetLogic w symbol side ok of
        Inl e \<Rightarrow> (cache w (posKeyOf symbol side), w)
      | Inr None \<Rightarrow> (cache w (posKeyOf symbol side), w)
      | Inr (Some dbLogic) \<Rightarrow>
          (let logic = dbLogic\<lparr>FirstSeenTime := 0\<rparr>
           in (Some logic, w\<lparr>cache := (cache w)(posKeyOf symbol side \<mapsto> logic)\<rparr>)))"

text \<open>
  \<^verbatim>\<open>PositionLogicStorage.SaveStopLossAndTakeProfit\<close>: read the row, overwrite the
  prices that are \<open>> 0\<close>, upsert the two price columns.
\<close>

definition storageSaveStopLossAndTakeProfit ::
  "PositionLogicWrapper \<Rightarrow> string \<Rightarrow> string \<Rightarrow> real \<Rightarrow> real \<Rightarrow> bool \<Rightarrow> bool
     \<Rightarrow> (storage_error + unit) \<times> PositionLogicWrapper" where
  "storageSaveStopLossAndTakeProfit w symbol side stopLoss takeProfit okGet okExec =
     (case storageGetLogic w symbol side okGet of
        Inl e \<Rightarrow> (Inl e, w)
      | Inr found \<Rightarrow>
          (let logic = (case found of None \<Rightarrow> emptyLogic | Some l \<Rightarrow> l);
               logic1 = (if stopLoss > 0 then logic\<lparr>lStopLoss := stopLoss\<rparr> else logic);
               logic2 = (if takeProfit > 0 then logic1\<lparr>lTakeProfit := takeProfit\<rparr> else logic1)
           in if okExec
              then (Inr (), w\<lparr>storage := (storage w)((symbol, side) \<mapsto> logic2)\<rparr>)
              else (Inl DriverFailed, w)))"

text \<open>
  \<^verbatim>\<open>PositionLogicWrapper.SaveStopLossAndTakeProfit\<close>: save to the table, then read the
  row back and copy it into the cache entry.
\<close>

definition SaveStopLossAndTakeProfit ::
  "PositionLogicWrapper \<Rightarrow> string \<Rightarrow> string \<Rightarrow> real \<Rightarrow> real \<Rightarrow> bool \<Rightarrow> bool \<Rightarrow> bool
     \<Rightarrow> (storage_error + unit) \<times> PositionLogicWrapper" where
  "SaveStopLossAndTakeProfit w symbol side stopLoss takeProfit okGet okExec okReload =
     (case storageSaveStopLossAndTakeProfit w symbol side stopLoss takeProfit okGet okExec of
        (Inl e, w1) \<Rightarrow> (Inl e, w1)
      | (Inr u, w1) \<Rightarrow>
          (case storageGetLogic w1 symbol side okReload of
             Inr (Some dbLogic) \<Rightarrow>
               (let k = posKeyOf symbol side;
                    logic = (case cache w1 k of None \<Rightarrow> emptyLogic | Some l \<Rightarrow> l);
                    logic1 = logic\<lparr>lStopLoss := lStopLoss dbLogic, lTakeProfit := lTakeProfit dbLogic\<rparr>;
                    logic2 = (case lEntryLogic dbLogic of None \<Rightarrow> logic1
                              | Some e \<Rightarrow> logic1\<lparr>lEntryLogic := Some e\<rparr>);
                    logic3 = (case lExitLogic dbLogic of None \<Rightarrow> logic2
                              | Some e \<Rightarrow> logic2\<lparr>lExitLogic := Some e\<rparr>)
                in (Inr (), w1\<lparr>cache := (cache w1)(k \<mapsto> logic3)\<rparr>))
           | _ \<Rightarrow> (Inr (), w1)))"

text \<open>Upserts of one column, each followed by the update of the cache entry.\<close>

definition upsertRow ::
  "PositionLogicWrapper \<Rightarrow> string \<Rightarrow> string \<Rightarrow> (PositionLogic \<Rightarrow> PositionLogic)
     \<Rightarrow> PositionLogicWrapper" where
  "upsertRow w symbol side f =
     w\<lparr>storage := (storage w)((symbol, side) \<mapsto>
          f (case storage w (symbol, side) of None \<Rightarrow> emptyLogic | Some l \<Rightarrow> l))\<rparr>"

definition updateCache ::
  "PositionLogicWrapper \<Rightarrow> string \<Rightarrow> string \<Rightarrow> (PositionLogic \<Rightarrow> PositionLogic)
     \<Rightarrow> PositionLogicWrapper" where
  "updateCache w symbol side f =
     w\<lparr>cache := (cache w)(posKeyOf symbol side \<mapsto>
          f (case cache w (posKeyOf symbol side) of None \<Rightarrow> emptyLogic | Some l \<Rightarrow> l))\<rparr>"

definition SaveEntryLogic ::
  "PositionLogicWrapper \<Rightarrow> string \<Rightarrow> string \<Rightarrow> string \<Rightarrow> bool
     \<Rightarrow> (storage_error + unit) \<times> PositionLogicWrapper" where
  "SaveEntryLogic w symbol side entryLogic ok =
     (if ok
      then (Inr (), updateCache (upsertRow w symbol side (\<lambda>l. l\<lparr>lEntryLogic := Some entryLogic\<rparr>))
                      symbol side (\<lambda>l. l\<lparr>lEntryLogic := Some entryLogic\<rparr>))
      else (Inl DriverFailed, w))"

definition SaveExitLogic ::
  "PositionLogicWrapper \<Rightarrow> string \<Rightarrow> string \<Rightarrow> string \<Rightarrow> bool
     \<Rightarrow> (storage_error + unit) \<times> PositionLogicWrapper" where
  "SaveExitLogic w symbol side exitLogic ok =
     (if ok
      then (Inr (), updateCache (upsertRow w symbol side (\<lambda>l. l\<lparr>lExitLogic := Some exitLogic\<rparr>))
                      symbol side (\<lambda>l. l\<lparr>lExitLogic := Some exitLogic\<rparr>))
      else (Inl DriverFailed, w))"

definition SaveFirstSeenTime ::
  "PositionLogicWrapper \<Rightarrow> string \<Rightarrow> string \<Rightarrow> int \<Rightarrow> bool
     \<Rightarrow> (storage_error + unit) \<times> PositionLogicWrapper" where
  "SaveFirstSeenTime w symbol side firstSeenTime ok =
     (if ok
      then (Inr (), updateCache (upsertRow w symbol side (\<lambda>l. l\<lparr>FirstSeenTime := firstSeenTime\<rparr>))
                      symbol side (\<lambda>l. l))
      else (Inl DriverFailed, w))"

text \<open>\<^verbatim>\<open>DeleteLogic\<close>: delete the row, then the cache entry.\<close>

definition DeleteLogic ::
  "PositionLogicWrapper \<Rightarrow> string \<Rightarrow> string \<Rightarrow> bool \<Rightarrow> (storage_error + unit) \<times> PositionLogicWrapper" where
  "DeleteLogic w symbol side ok =
     (if ok
      then (Inr (), w\<lparr>storage := (storage w)((symbol, side) := None),
                      cache := (cache w)(posKeyOf symbol side := None)\<rparr>)
      else (Inl DriverFailed, w))"

section \<open>The trader\<close>

record AutoTraderConfig =
  BTCETHLeverage :: int
  AltcoinLeverage :: int
  MaxDailyLoss :: real
  MaxDrawdown :: real
  PositionStopLossPct :: real
  PositionTakeProfitPct :: real
  StopTradingTime :: duration

text \<open>
  \<^verbatim>\<open>AutoTrader\<close>, with the fields the modelled functions read or write. The three
  tables behind \<^verbatim>\<open>storageAdapter\<close> are part of the state. \<^verbatim>\<open>stopUntil\<close> is \<open>None\<close>
  for the zero \<^verbatim>\<open>time.Time\<close> (\<^verbatim>\<open>IsZero()\<close>). \<^verbatim>\<open>closingPositions\<close> is the set of keys of
  the lock table: which goroutine holds a mutex is not part of the model, which runs
  one operation at a time.
\<close>

record AutoTrader =
  config :: AutoTraderConfig
  initialBalance :: real
  dailyPnL :: real
  dailyStartEquity :: real
  lastResetTime :: time
  stopUntil :: "time option"
  callCount :: int
  positionFirstSeenTime :: "string \<rightharpoonup> int"
  peakEquity :: real
  forcedClosedPositions :: "string \<rightharpoonup> time"
  closingPositions :: "string set"
  positionLogicManager :: PositionLogicWrapper
  trades :: trade_table
  decisionTable :: "StoredDecisionRecord list"

text \<open>A position as \<^verbatim>\<open>trader.GetPositions()\<close> reports it; \<^verbatim>\<open>leverage\<close> may be absent.\<close>

record ExPosition =
  pSymbol :: string
  pSide :: string
  entryPrice :: real
  markPrice :: real
  positionAmt :: real
  pLeverage :: "real option"

text \<open>Go's conversion \<^verbatim>\<open>int(x)\<close> of a float: truncation towards zero.\<close>

definition truncInt :: "real \<Rightarrow> int" where
  "truncInt x = (if x \<ge> 0 then \<lfloor>x\<rfloor> else \<lceil>x\<rceil>)"

text \<open>\<^verbatim>\<open>PositionStopLossRetryTimeout\<close> and the other constants of constants.go.\<close>

definition PositionStopLossRetryTimeout :: duration where
  "PositionStopLossRetryTimeout = 5 * Minute"

definition MaxMarginUsagePct :: real where "MaxMarginUsagePct = 90"
definition MaxMarginUsagePctSingleSymbol :: real where "MaxMarginUsagePctSingleSymbol = 80"
definition MinReserveBalancePct :: real where "MinReserveBalancePct = 5"
definition MinSafeDistancePct :: real where "MinSafeDistancePct = 3"
definition MaintenanceMarginRate :: real where "MaintenanceMarginRate = 1 / 100"
definition MinPositionSizeUSD :: real where "MinPositionSizeUSD = 1 / 1000"

text \<open>\<^verbatim>\<open>getOrCreateClosingLock\<close> and \<^verbatim>\<open>cleanupClosingLock\<close>.\<close>

definition getOrCreateClosingLock :: "AutoTrader \<Rightarrow> string \<Rightarrow> AutoTrader" where
  "getOrCreateClosingLock tr posKey = tr\<lparr>closingPositions := insert posKey (closingPositions tr)\<rparr>"

definition cleanupClosingLock :: "AutoTrader \<Rightarrow> string \<Rightarrow> AutoTrader" where
  "cleanupClosingLock tr posKey = tr\<lparr>closingPositions := closingPositions tr - {posKey}\<rparr>"

section \<open>The pre-trade margin and balance check (margin_safety_check.go)\<close>

text \<open>
  The parts of \<^verbatim>\<open>decision.Context\<close> the check reads. Fields of \<^verbatim>\<open>AccountInfo\<close> and
  \<^verbatim>\<open>PositionInfo\<close> that no modelled function reads are left out; \<open>acMarginUsed\<close> is
  \<^verbatim>\<open>Account.MarginUsed\<close>.
\<close>

record AccountInfo =
  TotalEquity :: real
  AvailableBalance :: real
  TotalPnL :: real
  TotalPnLPct :: real
  acMarginUsed :: real
  MarginUsedPct :: real
  PositionCount :: int

record PositionInfo =
  piSymbol :: string
  piSide :: string

record Context =
  Account :: AccountInfo
  Positions :: "PositionInfo list"

datatype margin_error =
    MarketDataFailed
  | CurrentPriceInvalid
  | MarginUsageExceeded
  | BalanceInsufficient
  | LiquidationTooClose
  | StopLossWrongSide
  | StopLossBeyondLiquidation

text \<open>
  Step 3.5: with no open position the trade is single-symbol; otherwise it is when the
  set of symbols of the open positions has one element, the symbol of the decision.
\<close>

definition isSingleSymbol :: "Context \<Rightarrow> Decision \<Rightarrow> bool" where
  "isSingleSymbol ctx dec =
     (if PositionCount (Account ctx) = 0 then True
      else remdups (map piSymbol (Positions ctx)) = [Symbol dec])"

text \<open>
  Step 6: the estimated liquidation price and its distance from the current price, in
  per cent. Every action other than \<^verbatim>\<open>"open_long"\<close> takes the short branch.
\<close>

definition marginRate :: "Decision \<Rightarrow> real" where
  "marginRate dec = 1 / real_of_int (Leverage dec) + MaintenanceMarginRate"

definition estimatedLiquidationPrice :: "Decision \<Rightarrow> real \<Rightarrow> real" where
  "estimatedLiquidationPrice dec estimatedEntryPrice =
     (if Action dec = ''open_long'' then estimatedEntryPrice * (1 - marginRate dec)
      else estimatedEntryPrice * (1 + marginRate dec))"

definition priceDistancePct :: "Decision \<Rightarrow> real \<Rightarrow> real" where
  "priceDistancePct dec estimatedEntryPrice =
     (if Action dec = ''open_long''
      then ((estimatedEntryPrice - estimatedLiquidationPrice dec estimatedEntryPrice)
              / estimatedEntryPrice) * 100
      else ((estimatedLiquidationPrice dec estimatedEntryPrice - estimatedEntryPrice)
              / estimatedEntryPrice) * 100)"

text \<open>
  \<^verbatim>\<open>checkMarginAndBalanceSafety\<close>. \<open>market\<close> is what \<^verbatim>\<open>market.Get\<close> returned: \<open>None\<close>
  for an error, otherwise the current price. \<open>Inr ()\<close> is the \<^verbatim>\<open>nil\<close> error.
\<close>

definition checkMarginAndBalanceSafety ::
  "Context \<Rightarrow> Decision \<Rightarrow> real option \<Rightarrow> margin_error + unit" where
  "checkMarginAndBalanceSafety ctx dec market =
     (case market of
        None \<Rightarrow> Inl MarketDataFailed
      | Some currentPrice \<Rightarrow>
          if currentPrice \<le> 0 then Inl CurrentPriceInvalid
          else
            (let positionValue = PositionSizeUSD dec;
                 marginRequired = positionValue / real_of_int (Leverage dec);
                 totalMarginAfterOpen = acMarginUsed (Account ctx) + marginRequired;
                 totalMarginUsedPct =
                   (if TotalEquity (Account ctx) > 0
                    then (totalMarginAfterOpen / TotalEquity (Account ctx)) * 100 else 0);
                 maxMarginUsagePct =
                   (if isSingleSymbol ctx dec then MaxMarginUsagePctSingleSymbol
                    else MaxMarginUsagePct);
                 minReserveBalance = TotalEquity (Account ctx) * (MinReserveBalancePct / 100);
                 availableBalanceAfterMargin = AvailableBalance (Account ctx) - marginRequired;
                 estimatedEntryPrice = currentPrice;
                 liq = estimatedLiquidationPrice dec estimatedEntryPrice
             in if totalMarginUsedPct > maxMarginUsagePct then Inl MarginUsageExceeded
                else if availableBalanceAfterMargin < minReserveBalance then Inl BalanceInsufficient
                else if priceDistancePct dec estimatedEntryPrice < MinSafeDistancePct
                  then Inl LiquidationTooClose
                else if StopLoss dec > 0 then
                  (if Action dec = ''open_long''
                   then (if StopLoss dec \<ge> estimatedEntryPrice then Inl StopLossWrongSide
                         else if StopLoss dec \<le> liq then Inl StopLossBeyondLiquidation
                         else Inr ())
                   else (if StopLoss dec \<le> estimatedEntryPrice then Inl StopLossWrongSide
                         else if StopLoss dec \<ge> liq then Inl StopLossBeyondLiquidation
                         else Inr ()))
                else Inr ()))"

section \<open>The trade-history recorder\<close>

text \<open>
  \<^verbatim>\<open>DecisionStorage.GetLatestRecords\<close>: the \<open>n\<close> rows with the latest timestamps, the
  latest first.
\<close>

definition GetLatestRecords :: "StoredDecisionRecord list \<Rightarrow> nat \<Rightarrow> StoredDecisionRecord list" where
  "GetLatestRecords tbl n = take n (rev (sort_key rTimestamp tbl))"

text \<open>
  The search of \<^verbatim>\<open>recordTradeHistory\<close> for the open action that a close belongs to.
  \<open>actionSideOf\<close> is the side of an action (empty for any other action);
  \<open>closedBefore\<close> is the test of the innermost loop; \<open>hasBeenClosed\<close> runs it over
  \<^verbatim>\<open>records[i:]\<close>; \<open>openCandidate\<close> is the test a successful action of
  \<^verbatim>\<open>records[i]\<close> must pass before \<^verbatim>\<open>hasBeenClosed\<close> is consulted.
\<close>

definition actionSideOf :: "DecisionAction \<Rightarrow> string" where
  "actionSideOf a =
     (if aAction a = ''open_long'' \<or> aAction a = ''close_long'' then ''long''
      else if aAction a = ''open_short'' \<or> aAction a = ''close_short'' then ''short''
      else [])"

definition closedBefore :: "string \<Rightarrow> string \<Rightarrow> time \<Rightarrow> DecisionAction \<Rightarrow> bool" where
  "closedBefore symbol side closeTime la =
     (aSuccess la \<and> aSymbol la = symbol
      \<and> ((side = ''long'' \<and> aAction la = ''close_long'')
           \<or> (side = ''short'' \<and> aAction la = ''close_short''))
      \<and> Timestamp la < closeTime)"

definition parsedActions :: "StoredDecisionRecord \<Rightarrow> DecisionAction list" where
  "parsedActions r = (case rDecisions r of None \<Rightarrow> [] | Some ds \<Rightarrow> ds)"

definition hasBeenClosed ::
  "StoredDecisionRecord list \<Rightarrow> nat \<Rightarrow> string \<Rightarrow> string \<Rightarrow> time \<Rightarrow> bool" where
  "hasBeenClosed records i symbol side closeTime =
     (filter (closedBefore symbol side closeTime) (concat (map parsedActions (drop i records))) \<noteq> [])"

definition openCandidate :: "string \<Rightarrow> string \<Rightarrow> time \<Rightarrow> DecisionAction \<Rightarrow> bool" where
  "openCandidate symbol side closeTime a =
     (aSuccess a \<and> aSymbol a = symbol \<and> actionSideOf a = side
      \<and> (aAction a = ''open_long'' \<or> aAction a = ''open_short'')
      \<and> \<not> Timestamp a > closeTime)"

text \<open>
  The outer loop \<^verbatim>\<open>for i := len(records) - 1; i >= 0; i--\<close>: \<open>findOpenAction records k\<close>
  has still to visit the indices below \<open>k\<close>. At an index the first candidate is taken
  unless \<^verbatim>\<open>hasBeenClosed\<close> holds there (then no action of that record is taken).
\<close>

fun findOpenAction ::
  "StoredDecisionRecord list \<Rightarrow> nat \<Rightarrow> string \<Rightarrow> string \<Rightarrow> time \<Rightarrow> (DecisionAction \<times> int) option" where
  "findOpenAction records 0 symbol side closeTime = None"
| "findOpenAction records (Suc i) symbol side closeTime =
     (case (if hasBeenClosed records i symbol side closeTime then None
            else find (openCandidate symbol side closeTime) (parsedActions (records ! i))) of
        Some a \<Rightarrow> Some (a, CycleNumber (records ! i))
      | None \<Rightarrow> findOpenAction records i symbol side closeTime)"

text \<open>
  What the recorder is told by the outside during one call: whether each read of the
  decision table succeeded, what \<^verbatim>\<open>GetPositions\<close> returned (\<open>None\<close> for an error)
  and whether the read of the position-logic table succeeded.
\<close>

record RecorderEnv =
  reRecordsOk :: bool
  rePositions :: "ExPosition list option"
  reLogicOk :: bool
  reRecordsOk1 :: bool
  reRecordsOk2 :: bool

text \<open>
  The two Chinese reason texts of the source ("opened outside the system" and
  "closed by hand"), in the words of the specification.
\<close>

definition externalOpenReason :: string where "externalOpenReason = ''external open''"
definition manualCloseReason :: string where "manualCloseReason = ''manual close''"

text \<open>
  \<^verbatim>\<open>recordTradeHistoryFromPosition\<close> decodes the stored actions as
  \<^verbatim>\<open>decision.Decision\<close> values: the JSON keys \<^verbatim>\<open>symbol\<close>, \<^verbatim>\<open>action\<close> and
  \<^verbatim>\<open>leverage\<close> are shared, the other fields of the decision stay zero.
\<close>

definition asDecision :: "DecisionAction \<Rightarrow> Decision" where
  "asDecision a =
     \<lparr>Symbol = aSymbol a, Action = aAction a, Leverage = aLeverage a, PositionSizeUSD = 0,
      StopLoss = 0, TakeProfit = 0, Confidence = 0, RiskUSD = 0, Reasoning = [],
      ExitReasoning = []\<rparr>"

definition isOpenOf :: "string \<Rightarrow> string \<Rightarrow> Decision \<Rightarrow> bool" where
  "isOpenOf symbol side d =
     ((Action d = ''open_long'' \<and> Symbol d = symbol \<and> side = ''long'')
      \<or> (Action d = ''open_short'' \<and> Symbol d = symbol \<and> side = ''short''))"

text \<open>
  The first loop over the decision table (open time): the record with the highest
  index that holds a matching open decision.
\<close>

fun findOpenTime :: "StoredDecisionRecord list \<Rightarrow> nat \<Rightarrow> string \<Rightarrow> string \<Rightarrow> time option" where
  "findOpenTime records 0 symbol side = None"
| "findOpenTime records (Suc i) symbol side =
     (if filter (isOpenOf symbol side) (map asDecision (parsedActions (records ! i))) \<noteq> []
      then Some (rTimestamp (records ! i))
      else findOpenTime records i symbol side)"

text \<open>
  The second loop (entry price), run while \<^verbatim>\<open>entryPrice == 0\<close>. The state is
  \<open>(entryPrice, quantity, leverage, openTime)\<close>; at a record with a matching decision
  the first match sets it and ends the inner loop; the outer loop ends once
  \<^verbatim>\<open>entryPrice != 0\<close>.
\<close>

type_synonym entry_state = "real \<times> real \<times> real \<times> time option"

definition entryFromMatch :: "DecisionAction \<Rightarrow> StoredDecisionRecord \<Rightarrow> Decision \<Rightarrow> entry_state \<Rightarrow> entry_state" where
  "entryFromMatch closeAction r d st =
     (case st of (price0, quantity, leverage, openTime) \<Rightarrow>
        (let openTime' = (case openTime of None \<Rightarrow> Some (rTimestamp r) | Some t \<Rightarrow> Some t)
         in if PositionSizeUSD d > 0
            then (Price closeAction, quantity, leverage, openTime')
            else (Price closeAction, Quantity closeAction, real_of_int (aLeverage closeAction),
                  openTime')))"

fun findEntry ::
  "StoredDecisionRecord list \<Rightarrow> nat \<Rightarrow> string \<Rightarrow> string \<Rightarrow> DecisionAction \<Rightarrow> entry_state \<Rightarrow> entry_state" where
  "findEntry records 0 symbol side closeAction st = st"
| "findEntry records (Suc i) symbol side closeAction st =
     (let st' = (case find (isOpenOf symbol side) (map asDecision (parsedActions (records ! i))) of
                   None \<Rightarrow> st
                 | Some d \<Rightarrow> entryFromMatch closeAction (records ! i) d st)
      in if fst st' \<noteq> 0 then st' else findEntry records i symbol side closeAction st')"

text \<open>
  \<^verbatim>\<open>recordTradeHistoryFromPosition\<close>, first half: the open side is looked for in
  the first-seen map (open time), the positions of the exchange (entry price, quantity,
  leverage) and the last 100 decision records. The result is the state
  \<open>(entryPrice, quantity, leverage, openTime)\<close> and the wrapper, whose cache the read
  of the position logic may have refreshed. The later read of the position-logic table
  has no effect and is left out.
\<close>

definition recoverOpenSide ::
  "AutoTrader \<Rightarrow> RecorderEnv \<Rightarrow> string \<Rightarrow> string \<Rightarrow> DecisionAction
     \<Rightarrow> entry_state \<times> PositionLogicWrapper" where
  "recoverOpenSide tr env side symbol closeAction =
     (let posKey = posKeyOf symbol side;
          openTime0 = (case positionFirstSeenTime tr posKey of
                         None \<Rightarrow> None | Some ts \<Rightarrow> Some (ts * 1000000));
          found = (case rePositions env of None \<Rightarrow> None
                   | Some ps \<Rightarrow> find (\<lambda>p. pSymbol p = symbol \<and> pSide p = side) ps);
          entryPrice0 = (case found of None \<Rightarrow> 0 | Some p \<Rightarrow> entryPrice p);
          quantity0 = (case found of None \<Rightarrow> 0 | Some p \<Rightarrow> \<bar>positionAmt p\<bar>);
          leverage0 = (case found of None \<Rightarrow> 0
                       | Some p \<Rightarrow> (case pLeverage p of None \<Rightarrow> 0 | Some l \<Rightarrow> l));
          plm1 = (if entryPrice0 = 0
                  then snd (GetLogic (positionLogicManager tr) symbol side (reLogicOk env))
                  else positionLogicManager tr);
          records = GetLatestRecords (decisionTable tr) 100;
          openTime1 = (if openTime0 = None \<and> reRecordsOk1 env
                       then findOpenTime records (length records) symbol side
                       else openTime0);
          st = (if entryPrice0 = 0 \<and> reRecordsOk2 env
                then findEntry records (length records) symbol side closeAction
                       (entryPrice0, quantity0, leverage0, openTime1)
                else (entryPrice0, quantity0, leverage0, openTime1))
      in (st, plm1))"

text \<open>
  Second half: the defaults for what was not found (open time one hour before the
  close, quantity and leverage of the close action, else 1 and 10) and the open action
  made of the result.
\<close>

definition reconstructedOpen :: "string \<Rightarrow> string \<Rightarrow> DecisionAction \<Rightarrow> entry_state \<Rightarrow> DecisionAction" where
  "reconstructedOpen symbol side closeAction st =
     (case st of (entryPrice1, quantity1, leverage1, openTime2) \<Rightarrow>
        (let openTime = (case openTime2 of None \<Rightarrow> Timestamp closeAction - Hour
                         | Some t \<Rightarrow> t);
             quantity = (if quantity1 = 0
                         then (if Quantity closeAction \<noteq> 0 then Quantity closeAction else 1)
                         else quantity1);
             leverage = (if leverage1 = 0
                         then (if aLeverage closeAction \<noteq> 0
                               then real_of_int (aLeverage closeAction) else 10)
                         else leverage1)
         in \<lparr>aAction = ''open_'' @ side, aSymbol = symbol, Quantity = quantity,
             aLeverage = truncInt leverage, Price = entryPrice1, OrderID = 0,
             Timestamp = openTime, aSuccess = True, aError = [], aIsForced = False,
             aForcedReason = []\<rparr>))"

text \<open>
  \<^verbatim>\<open>recordTradeHistoryFromPosition\<close>: without an entry price nothing is recorded;
  otherwise the record is built and written with \<^verbatim>\<open>LogTrade\<close>, whose error is logged
  and dropped. This is the only write to the trade table.
\<close>

definition recordTradeHistoryFromPosition ::
  "AutoTrader \<Rightarrow> RecorderEnv \<Rightarrow> string \<Rightarrow> string \<Rightarrow> DecisionAction \<Rightarrow> bool \<Rightarrow> string \<Rightarrow> AutoTrader" where
  "recordTradeHistoryFromPosition tr env side symbol closeAction isForced forcedReason =
     (case recoverOpenSide tr env side symbol closeAction of
        (st, plm1) \<Rightarrow>
          if fst st = 0 then tr\<lparr>positionLogicManager := plm1\<rparr>
          else tr\<lparr>positionLogicManager := plm1,
                  trades := snd (LogTrade (trades tr)
                                   (buildTradeRecord symbol side
                                      (reconstructedOpen symbol side closeAction st) closeAction
                                      0 (callCount tr) isForced forcedReason
                                      externalOpenReason []))\<rparr>)"

text \<open>\<^verbatim>\<open>recordTradeHistoryFromAction\<close> only forwards.\<close>

definition recordTradeHistoryFromAction ::
  "AutoTrader \<Rightarrow> RecorderEnv \<Rightarrow> string \<Rightarrow> string \<Rightarrow> DecisionAction \<Rightarrow> bool \<Rightarrow> string \<Rightarrow> AutoTrader" where
  "recordTradeHistoryFromAction tr env symbol side closeAction isForced forcedReason =
     recordTradeHistoryFromPosition tr env side symbol closeAction isForced forcedReason"

text \<open>
  \<^verbatim>\<open>recordTradeHistory\<close>: look for the open action in the last 1000 decision records;
  without one (or when the table cannot be read) fall back to
  \<^verbatim>\<open>recordTradeHistoryFromPosition\<close>; otherwise build the record and \<^verbatim>\<open>LogTrade\<close> it.
  The function never reads the trade table and never calls \<^verbatim>\<open>UpdateTrade\<close>.
\<close>

definition recordTradeHistory ::
  "AutoTrader \<Rightarrow> RecorderEnv \<Rightarrow> string \<Rightarrow> Decision \<Rightarrow> DecisionAction \<Rightarrow> bool \<Rightarrow> string \<Rightarrow> AutoTrader" where
  "recordTradeHistory tr env side dec closeAction isForced forcedReason =
     (if \<not> reRecordsOk env
      then recordTradeHistoryFromPosition tr env side (Symbol dec) closeAction isForced forcedReason
      else
        (let records = GetLatestRecords (decisionTable tr) 1000
         in case findOpenAction records (length records) (Symbol dec) side (Timestamp closeAction) of
              None \<Rightarrow> recordTradeHistoryFromPosition tr env side (Symbol dec) closeAction isForced
                        forcedReason
            | Some (openAction, openCycleNum) \<Rightarrow>
                (let trade = buildTradeRecord (Symbol dec) side openAction closeAction openCycleNum
                               (callCount tr) isForced forcedReason (Reasoning dec) (Reasoning dec)
                 in tr\<lparr>trades := snd (LogTrade (trades tr) trade)\<rparr>)))"

section \<open>The exchange-trade reconciler (SyncManualTradesFromExchange)\<close>

text \<open>
  A fill as \<^verbatim>\<open>GetAccountTrades\<close> returns it: a JSON object read through type
  assertions. A field that the code parses with \<^verbatim>\<open>strconv.ParseFloat\<close> is modelled by
  the outcome of the assertion and the parse (\<open>numstr\<close>); \<^verbatim>\<open>orderId\<close> may be a
  number or a decimal string (\<open>jnum\<close>).
\<close>

datatype numstr =
    NotAString      \<comment> \<open>the field is absent or not a string\<close>
  | EmptyStr        \<comment> \<open>the empty string\<close>
  | BadNumber       \<comment> \<open>a non-empty string that \<^verbatim>\<open>ParseFloat\<close> rejects\<close>
  | Number real     \<comment> \<open>a string that parses to this value\<close>

datatype jnum = JFloat real | JString numstr | JOther

record Fill =
  fSymbol :: "string option"
  fOrderId :: jnum
  fSide :: string
  fTime :: "real option"
  fTimestamp :: "real option"
  fPrice :: numstr
  fQty :: numstr
  fQuantity :: numstr
  fRealizedPnl :: numstr

text \<open>\<^verbatim>\<open>x, _ := strconv.ParseFloat(s, 64)\<close> after \<^verbatim>\<open>s, _ := v.(string)\<close>.\<close>

definition parsedOrZero :: "numstr \<Rightarrow> real" where
  "parsedOrZero v = (case v of Number x \<Rightarrow> x | _ \<Rightarrow> 0)"

text \<open>\<^verbatim>\<open>strings.ToUpper\<close> on ASCII letters.\<close>

definition upperChar :: "char \<Rightarrow> char" where
  "upperChar c =
     (case map_of (zip ''abcdefghijklmnopqrstuvwxyz'' ''ABCDEFGHIJKLMNOPQRSTUVWXYZ'') c of
        None \<Rightarrow> c | Some u \<Rightarrow> u)"

definition ToUpper :: "string \<Rightarrow> string" where
  "ToUpper s = map upperChar s"

text \<open>The time of a fill: seconds when the number is below \<open>1e12\<close>, else milliseconds.\<close>

definition fillTimeMs :: "Fill \<Rightarrow> real option" where
  "fillTimeMs f = (case fTime f of Some t \<Rightarrow> Some t | None \<Rightarrow> fTimestamp f)"

definition toTime :: "real \<Rightarrow> time" where
  "toTime timeMs =
     (if timeMs < 1000000000000 then truncInt timeMs * Second else truncInt timeMs * 1000000)"

record aggregatedTrade =
  orderId :: int
  agSymbol :: string
  agSide :: string
  tradeSide :: string
  totalQty :: real
  totalPnL :: real
  weightedPrice :: real
  firstTime :: time
  lastTime :: time
  totalRealizedPnl :: real

text \<open>
  \<^verbatim>\<open>orderMap\<close> is a Go map from order id to aggregate; the model is an association
  list in order of first insertion. Go does not fix the order in which the second loop
  visits the map; the model visits in that order.
\<close>

type_synonym order_map = "(int \<times> aggregatedTrade) list"

definition orderIdOf :: "Fill \<Rightarrow> real option" where
  "orderIdOf f =
     (case fOrderId f of
        JFloat x \<Rightarrow> Some x
      | JString (Number x) \<Rightarrow> Some x
      | _ \<Rightarrow> None)"

definition qtyOf :: "Fill \<Rightarrow> numstr" where
  "qtyOf f = (if fQty f = NotAString then fQuantity f else fQty f)"

definition tradeSideOf :: "string \<Rightarrow> string option" where
  "tradeSideOf side =
     (if ToUpper side = ''SELL'' then Some ''long''
      else if ToUpper side = ''BUY'' then Some ''short''
      else None)"

definition accumulate :: "aggregatedTrade \<Rightarrow> real \<Rightarrow> real \<Rightarrow> real \<Rightarrow> time \<Rightarrow> aggregatedTrade" where
  "accumulate agg price qty realizedPnl tradeTime =
     (let oldTotalValue = weightedPrice agg * totalQty agg;
          newTotalValue = oldTotalValue + price * qty;
          newQty = totalQty agg + qty
      in agg\<lparr>totalQty := newQty, weightedPrice := newTotalValue / newQty,
             totalPnL := totalPnL agg + realizedPnl,
             totalRealizedPnl := totalRealizedPnl agg + realizedPnl,
             firstTime := (if tradeTime < firstTime agg then tradeTime else firstTime agg),
             lastTime := (if tradeTime > lastTime agg then tradeTime else lastTime agg)\<rparr>)"

text \<open>The body of the first loop: one fill into \<^verbatim>\<open>orderMap\<close>, or skipped.\<close>

definition aggregateFill :: "(int \<Rightarrow> bool) \<Rightarrow> order_map \<Rightarrow> Fill \<Rightarrow> order_map" where
  "aggregateFill localTradeMap om f =
     (case fSymbol f of
        None \<Rightarrow> om
      | Some symbol \<Rightarrow>
        if symbol = [] then om else
        (case orderIdOf f of
           None \<Rightarrow> om
         | Some oid \<Rightarrow>
           if oid = 0 then om
           else if localTradeMap (truncInt oid) then om
           else
           (case fillTimeMs f of
              None \<Rightarrow> om
            | Some timeMs \<Rightarrow>
              (case fPrice f of
                 Number price \<Rightarrow>
                   (case qtyOf f of
                      Number qty \<Rightarrow>
                        (let realizedPnl = parsedOrZero (fRealizedPnl f);
                             tradeTime = toTime timeMs
                         in if realizedPnl = 0 then om
                            else
                            (case tradeSideOf (fSide f) of
                               None \<Rightarrow> om
                             | Some ts \<Rightarrow>
                               (case map_of om (truncInt oid) of
                                  Some agg \<Rightarrow>
                                    map (\<lambda>(k, a). if k = truncInt oid
                                                    then (k, accumulate a price qty realizedPnl tradeTime)
                                                    else (k, a)) om
                                | None \<Rightarrow>
                                    om @ [(truncInt oid,
                                           \<lparr>orderId = truncInt oid, agSymbol = symbol,
                                            agSide = fSide f, tradeSide = ts, totalQty = qty,
                                            totalPnL = realizedPnl, weightedPrice = price,
                                            firstTime = tradeTime, lastTime = tradeTime,
                                            totalRealizedPnl = realizedPnl\<rparr>)])))
                    | _ \<Rightarrow> om)
               | _ \<Rightarrow> om))))"

text \<open>
  The search for the open fill of a close order: same symbol, opposite direction,
  \<^verbatim>\<open>realizedPnl == 0\<close>, earlier than the last close fill; the latest such fill wins
  (the first one among equals).
\<close>

definition isOpenFillFor :: "aggregatedTrade \<Rightarrow> Fill \<Rightarrow> bool" where
  "isOpenFillFor agg f =
     (fSymbol f = Some (agSymbol agg)
      \<and> (case fillTimeMs f of
            None \<Rightarrow> False
          | Some timeMs \<Rightarrow>
              ((tradeSide agg = ''long'' \<and> ToUpper (fSide f) = ''BUY'')
                 \<or> (tradeSide agg = ''short'' \<and> ToUpper (fSide f) = ''SELL''))
              \<and> parsedOrZero (fRealizedPnl f) = 0
              \<and> toTime timeMs < lastTime agg))"

definition fillTime :: "Fill \<Rightarrow> time" where
  "fillTime f = (case fillTimeMs f of None \<Rightarrow> 0 | Some t \<Rightarrow> toTime t)"

definition pickLater :: "Fill option \<Rightarrow> Fill \<Rightarrow> Fill option" where
  "pickLater best f =
     (case best of None \<Rightarrow> Some f
      | Some b \<Rightarrow> if fillTime f > fillTime b then Some f else Some b)"

definition bestOpenTrade :: "Fill list \<Rightarrow> aggregatedTrade \<Rightarrow> Fill option" where
  "bestOpenTrade accountTrades agg =
     foldl (\<lambda>best f. if isOpenFillFor agg f then pickLater best f else best) None accountTrades"

text \<open>The three sources of the leverage, tried in this order.\<close>

definition leverageFromPositions :: "ExPosition list option \<Rightarrow> aggregatedTrade \<Rightarrow> int" where
  "leverageFromPositions positions agg =
     (case positions of
        None \<Rightarrow> 0
      | Some ps \<Rightarrow>
          (case find (\<lambda>p. pSymbol p = agSymbol agg \<and> pSide p = tradeSide agg \<and> pLeverage p \<noteq> None) ps of
             None \<Rightarrow> 0
           | Some p \<Rightarrow> (case pLeverage p of None \<Rightarrow> 0 | Some l \<Rightarrow> truncInt l)))"

definition leverageFromLocal :: "TradeRecord list \<Rightarrow> aggregatedTrade \<Rightarrow> int" where
  "leverageFromLocal localTrades agg =
     (case find (\<lambda>t. tSymbol t = agSymbol agg \<and> Side t = tradeSide agg
                     \<and> OpenTime t < lastTime agg \<and> OpenTime t > lastTime agg - 24 * Hour)
             localTrades of
        None \<Rightarrow> 0
      | Some t \<Rightarrow> OpenLeverage t)"

definition configuredLeverage :: "AutoTraderConfig \<Rightarrow> string \<Rightarrow> int" where
  "configuredLeverage cfg symbol =
     (if symbol = ''BTCUSDT'' \<or> symbol = ''ETHUSDT'' then BTCETHLeverage cfg
      else AltcoinLeverage cfg)"

definition pickLaterLocal :: "TradeRecord option \<Rightarrow> TradeRecord \<Rightarrow> TradeRecord option" where
  "pickLaterLocal best t =
     (case best of None \<Rightarrow> Some t
      | Some b \<Rightarrow> if OpenTime t > OpenTime b then Some t else Some b)"

definition bestLocalTrade :: "TradeRecord list \<Rightarrow> aggregatedTrade \<Rightarrow> TradeRecord option" where
  "bestLocalTrade localTrades agg =
     foldl (\<lambda>best t. if tSymbol t = agSymbol agg \<and> Side t = tradeSide agg
                        \<and> OpenTime t < lastTime agg
                      then pickLaterLocal best t else best) None localTrades"

text \<open>
  What the reconciler is told by the outside: the fills (\<open>None\<close> for an error), whether
  the first read of the trade table succeeded, and per close order what
  \<^verbatim>\<open>GetPositions\<close> returned and whether the two later reads of the trade table
  succeeded.
\<close>

record SyncEnv =
  syAccountTrades :: "Fill list option"
  syLocalOk :: bool
  syPositions :: "int \<Rightarrow> ExPosition list option"
  syLeverageReadOk :: "int \<Rightarrow> bool"
  syOpenReadOk :: "int \<Rightarrow> bool"

text \<open>
  The open side \<open>(openPrice, openQuantity, openLeverage, openOrderID, openTime)\<close> of a
  close order, as the second loop recovers it. The zero \<^verbatim>\<open>time.Time\<close> of an open
  time never set is \<open>0\<close> here; it is not used, since such an order is skipped.
\<close>

definition openSideOf ::
  "AutoTrader \<Rightarrow> SyncEnv \<Rightarrow> Fill list \<Rightarrow> aggregatedTrade \<Rightarrow> real \<times> real \<times> int \<times> int \<times> time" where
  "openSideOf tr env accountTrades agg =
     (let fromFills =
            (case bestOpenTrade accountTrades agg of
               None \<Rightarrow> (0, 0, 0, 0, 0)
             | Some b \<Rightarrow>
                 (let lev1 = leverageFromPositions (syPositions env (orderId agg)) agg;
                      lev2 = (if lev1 = 0 \<and> syLeverageReadOk env (orderId agg)
                              then leverageFromLocal (GetLatestTrades (trades tr) 500) agg
                              else lev1);
                      lev3 = (if lev2 = 0 then configuredLeverage (config tr) (agSymbol agg)
                              else lev2)
                  in (parsedOrZero (fPrice b), parsedOrZero (fQty b), lev3,
                      (case fOrderId b of JFloat x \<Rightarrow> truncInt x | _ \<Rightarrow> 0),
                      fillTime b)))
      in if fst fromFills = 0 \<and> syOpenReadOk env (orderId agg)
         then (case bestLocalTrade (GetLatestTrades (trades tr) 500) agg of
                 None \<Rightarrow> fromFills
               | Some t \<Rightarrow> (OpenPrice t, OpenQuantity t, OpenLeverage t, OpenOrderID t, OpenTime t))
         else fromFills)"

text \<open>
  The record built for a close order whose open side was found. Its \<^verbatim>\<open>PnL\<close> is the
  sum of the realized PnL the venue reported for the fills of the order.
\<close>

definition syncRecord ::
  "AutoTrader \<Rightarrow> aggregatedTrade \<Rightarrow> real \<times> real \<times> int \<times> int \<times> time \<Rightarrow> TradeRecord" where
  "syncRecord tr agg opn =
     (case opn of (openPrice, openQuantity, openLeverage, openOrderID, openTime) \<Rightarrow>
        (let tradeId = agSymbol agg @ ''_'' @ tradeSide agg @ ''_'' @ showInt (orderId agg);
             dur = lastTime agg - openTime;
             calculatedPnL = totalRealizedPnl agg;
             positionValue = openQuantity * openPrice;
             marginUsed = positionValue / real_of_int openLeverage;
             pnlPct = (if marginUsed > 0 then (calculatedPnL / marginUsed) * 100 else 0)
         in \<lparr>TradeID = tradeId, tSymbol = agSymbol agg, Side = tradeSide agg,
             OpenTime = openTime, OpenPrice = openPrice, OpenQuantity = openQuantity,
             OpenLeverage = openLeverage, OpenOrderID = openOrderID,
             OpenReason = externalOpenReason, OpenCycleNum = 0,
             CloseTime = Some (lastTime agg), ClosePrice = weightedPrice agg,
             CloseQuantity = totalQty agg, CloseOrderID = orderId agg,
             CloseReason = manualCloseReason, CloseCycleNum = callCount tr,
             IsForced = False, ForcedReason = [], Duration = dur,
             PositionValue = positionValue, MarginUsed = marginUsed,
             PnL = calculatedPnL, PnLPct = pnlPct, WasStopLoss = False, Success = True,
             Error = [], EntryLogic = [], ExitLogic = [], UpdateSLLogic = [],
             UpdateTPLogic = [], CloseLogic = [], ForcedCloseLogic = []\<rparr>))"

definition missingTrades :: "AutoTrader \<Rightarrow> SyncEnv \<Rightarrow> Fill list \<Rightarrow> order_map \<Rightarrow> TradeRecord list" where
  "missingTrades tr env accountTrades om =
     concat (map (\<lambda>(k, agg).
                    (let opn = openSideOf tr env accountTrades agg
                     in if fst opn = 0 then [] else [syncRecord tr agg opn])) om)"

datatype sync_error = TradesFetchFailed | LocalTradesFailed

text \<open>
  \<^verbatim>\<open>SyncManualTradesFromExchange\<close>. The trader is always an \<^verbatim>\<open>AsterTrader\<close> and the
  storage adapter is never nil (\<^verbatim>\<open>NewAutoTrader\<close> fails otherwise), so the two
  corresponding error returns cannot be taken.
\<close>

definition SyncManualTradesFromExchange ::
  "AutoTrader \<Rightarrow> SyncEnv \<Rightarrow> (sync_error + unit) \<times> AutoTrader" where
  "SyncManualTradesFromExchange tr env =
     (case syAccountTrades env of
        None \<Rightarrow> (Inl TradesFetchFailed, tr)
      | Some accountTrades \<Rightarrow>
          if accountTrades = [] then (Inr (), tr)
          else if \<not> syLocalOk env then (Inl LocalTradesFailed, tr)
          else
            (let localTrades = GetLatestTrades (trades tr) 1000;
                 localTradeMap =
                   (\<lambda>k. filter (\<lambda>t. CloseOrderID t > 0 \<and> CloseOrderID t = k) localTrades \<noteq> []);
                 om = foldl (aggregateFill localTradeMap) [] accountTrades;
                 missing = missingTrades tr env accountTrades om
             in (Inr (), tr\<lparr>trades := foldl (\<lambda>db t. snd (LogTrade db t)) (trades tr) missing\<rparr>)))"

section \<open>Closing a position\<close>

datatype close_error =
    AlreadyForceClosed    \<comment> \<open>the forced-close registry holds a mark for the position\<close>
  | MarketFailed          \<comment> \<open>\<^verbatim>\<open>market.Get\<close> returned an error\<close>
  | OrderFailed           \<comment> \<open>\<^verbatim>\<open>CloseLong\<close>/\<^verbatim>\<open>CloseShort\<close> returned an error\<close>

text \<open>
  What a force-close is told by the outside: the clock, the market price (\<open>None\<close> for
  an error), the result of the close order (\<open>None\<close> for an error, otherwise the
  \<^verbatim>\<open>orderId\<close> if the reply carries one as \<^verbatim>\<open>int64\<close>), whether the delete of the
  position logic succeeded, and the inputs of the recorder. The clock is read once per
  call. Error texts stored in an action record are abbreviated.
\<close>

record ForceCloseEnv =
  fcNow :: time
  fcMarket :: "real option"
  fcOrder :: "int option option"
  fcDeleteLogicOk :: bool
  fcRecorder :: RecorderEnv

text \<open>The zero value \<^verbatim>\<open>logger.DecisionAction{}\<close> (its zero time is \<open>0\<close> here).\<close>

definition zeroAction :: DecisionAction where
  "zeroAction = \<lparr>aAction = [], aSymbol = [], Quantity = 0, aLeverage = 0, Price = 0,
                  OrderID = 0, Timestamp = 0, aSuccess = False, aError = [],
                  aIsForced = False, aForcedReason = []\<rparr>"

text \<open>
  The check of the forced-close registry made twice by \<^verbatim>\<open>forceClosePosition\<close>: a mark
  older than the retry timeout is deleted, a younger one ends the call.
\<close>

definition checkForcedMark :: "AutoTrader \<Rightarrow> string \<Rightarrow> time \<Rightarrow> close_error + AutoTrader" where
  "checkForcedMark tr posKey now =
     (case forcedClosedPositions tr posKey of
        None \<Rightarrow> Inr tr
      | Some markTime \<Rightarrow>
          if now - markTime > PositionStopLossRetryTimeout
          then Inr (tr\<lparr>forcedClosedPositions := (forcedClosedPositions tr)(posKey := None)\<rparr>)
          else Inl AlreadyForceClosed)"

text \<open>
  The part of \<^verbatim>\<open>forceClosePosition\<close> that runs with the close lock held, from the
  second check of the registry to the return.
\<close>

definition forceCloseLocked ::
  "AutoTrader \<Rightarrow> ForceCloseEnv \<Rightarrow> string \<Rightarrow> string \<Rightarrow> string
     \<Rightarrow> close_error option \<times> DecisionAction \<times> AutoTrader" where
  "forceCloseLocked tr env symbol side reason =
     (let posKey = posKeyOf symbol side in
      case checkForcedMark tr posKey (fcNow env) of
        Inl e \<Rightarrow> (Some e, zeroAction, tr)
      | Inr tr1 \<Rightarrow>
          (let actionRecord = zeroAction\<lparr>aSymbol := symbol, Timestamp := fcNow env,
                                           aIsForced := True, aForcedReason := reason\<rparr>
           in case fcMarket env of
                None \<Rightarrow> (Some MarketFailed, actionRecord\<lparr>aError := ''market data failed''\<rparr>, tr1)
              | Some currentPrice \<Rightarrow>
                  (let a1 = actionRecord\<lparr>Price := currentPrice,
                               aAction := (if side = ''long'' then ''close_long'' else ''close_short'')\<rparr>
                   in case fcOrder env of
                        None \<Rightarrow>
                          (Some OrderFailed, a1\<lparr>aError := ''close order failed''\<rparr>,
                           tr1\<lparr>forcedClosedPositions := (forcedClosedPositions tr1)(posKey \<mapsto> fcNow env)\<rparr>)
                      | Some oid \<Rightarrow>
                          (let a2 = (case oid of None \<Rightarrow> a1 | Some i \<Rightarrow> a1\<lparr>OrderID := i\<rparr>);
                               a3 = a2\<lparr>aSuccess := True\<rparr>;
                               tr2 = tr1\<lparr>forcedClosedPositions :=
                                           (forcedClosedPositions tr1)(posKey \<mapsto> fcNow env)\<rparr>;
                               tr3 = tr2\<lparr>positionLogicManager :=
                                           snd (DeleteLogic (positionLogicManager tr2) symbol side
                                                  (fcDeleteLogicOk env))\<rparr>;
                               tr4 = recordTradeHistoryFromAction tr3 (fcRecorder env) symbol side a3
                                       True reason
                           in (None, a3, tr4)))))"

text \<open>
  \<^verbatim>\<open>forceClosePosition\<close>: the first check runs before the lock is taken; after
  \<^verbatim>\<open>getOrCreateClosingLock\<close> the function registers
  \<^verbatim>\<open>defer at.cleanupClosingLock(posKey)\<close>, which runs at every return that follows.
\<close>

definition forceClosePosition ::
  "AutoTrader \<Rightarrow> ForceCloseEnv \<Rightarrow> string \<Rightarrow> string \<Rightarrow> string
     \<Rightarrow> close_error option \<times> DecisionAction \<times> AutoTrader" where
  "forceClosePosition tr env symbol side reason =
     (let posKey = posKeyOf symbol side in
      case checkForcedMark tr posKey (fcNow env) of
        Inl e \<Rightarrow> (Some e, zeroAction, tr)
      | Inr tr1 \<Rightarrow>
          (case forceCloseLocked (getOrCreateClosingLock tr1 posKey) env symbol side reason of
             (err, action, tr2) \<Rightarrow> (err, action, cleanupClosingLock tr2 posKey)))"

text \<open>
  \<^verbatim>\<open>forceCloseAllPositions\<close>: one force-close per position of the context; a failed
  one is logged and skipped, a successful one is marked in the registry once more. The
  function itself never returns an error. \<open>envs i\<close> is the outside seen by the
  \<open>i\<close>-th call.
\<close>

fun forceCloseAllFrom ::
  "AutoTrader \<Rightarrow> (nat \<Rightarrow> ForceCloseEnv) \<Rightarrow> nat \<Rightarrow> string \<Rightarrow> PositionInfo list
     \<Rightarrow> DecisionAction list \<times> AutoTrader" where
  "forceCloseAllFrom tr envs i reason [] = ([], tr)"
| "forceCloseAllFrom tr envs i reason (pos # rest) =
     (case forceClosePosition tr (envs i) (piSymbol pos) (piSide pos) reason of
        (Some e, action, tr1) \<Rightarrow> forceCloseAllFrom tr1 envs (Suc i) reason rest
      | (None, action, tr1) \<Rightarrow>
          (let tr2 = tr1\<lparr>forcedClosedPositions :=
                        (forcedClosedPositions tr1)(posKeyOf (piSymbol pos) (piSide pos) \<mapsto> fcNow (envs i))\<rparr>
           in case forceCloseAllFrom tr2 envs (Suc i) reason rest of
                (actions, tr3) \<Rightarrow> (action # actions, tr3)))"

definition forceCloseAllPositions ::
  "AutoTrader \<Rightarrow> (nat \<Rightarrow> ForceCloseEnv) \<Rightarrow> string \<Rightarrow> Context \<Rightarrow> DecisionAction list \<times> AutoTrader" where
  "forceCloseAllPositions tr envs reason ctx = forceCloseAllFrom tr envs 0 reason (Positions ctx)"

text \<open>
  What an AI-driven close is told by the outside: the market price, the result of the
  close order, the positions read back after the close, the second market read (made
  when the decision carries a reasoning), whether the writes to the position-logic
  table succeeded, and the inputs of the recorder.
\<close>

record CloseEnv =
  clMarket :: "real option"
  clOrder :: "int option option"
  clPositions :: "ExPosition list option"
  clMarket2 :: "real option"
  clSaveExitOk :: bool
  clDeleteLogicOk :: bool
  clRecorder :: RecorderEnv

text \<open>
  \<^verbatim>\<open>executeCloseLongWithRecord\<close> and \<^verbatim>\<open>executeCloseShortWithRecord\<close> are the same
  text up to the side: \<open>executeCloseWithRecord\<close> is that text with the side as a
  parameter. The lock is created by \<^verbatim>\<open>getOrCreateClosingLock\<close> and deleted by the
  one call of \<^verbatim>\<open>cleanupClosingLock\<close> that follows the successful order; the error
  returns in between leave it in the table. The exit logic saved is the reasoning of
  the decision.
\<close>

definition stillOpen :: "string \<Rightarrow> string \<Rightarrow> ExPosition list option \<Rightarrow> bool" where
  "stillOpen symbol side positions =
     (case positions of
        None \<Rightarrow> False
      | Some ps \<Rightarrow>
          filter (\<lambda>p. pSymbol p = symbol \<and> pSide p = side \<and> \<bar>positionAmt p\<bar> > 1 / 10000) ps \<noteq> [])"

definition executeCloseWithRecord ::
  "string \<Rightarrow> AutoTrader \<Rightarrow> CloseEnv \<Rightarrow> Decision \<Rightarrow> DecisionAction
     \<Rightarrow> (close_error + unit) \<times> DecisionAction \<times> AutoTrader" where
  "executeCloseWithRecord side tr env dec actionRecord =
     (let posKey = posKeyOf (Symbol dec) side in
      if forcedClosedPositions tr posKey \<noteq> None then (Inl AlreadyForceClosed, actionRecord, tr)
      else
        (let tr1 = getOrCreateClosingLock tr posKey in
         if forcedClosedPositions tr1 posKey \<noteq> None then (Inl AlreadyForceClosed, actionRecord, tr1)
         else
           (case clMarket env of
              None \<Rightarrow> (Inl MarketFailed, actionRecord, tr1)
            | Some currentPrice \<Rightarrow>
                (let a1 = actionRecord\<lparr>Price := currentPrice\<rparr> in
                 case clOrder env of
                   None \<Rightarrow> (Inl OrderFailed, a1, tr1)
                 | Some oid \<Rightarrow>
                     (let a2 = (if stillOpen (Symbol dec) side (clPositions env)
                                then a1\<lparr>aError := ''position still open after close''\<rparr> else a1);
                          tr2 = cleanupClosingLock tr1 posKey;
                          a3 = (case oid of None \<Rightarrow> a2 | Some i \<Rightarrow> a2\<lparr>OrderID := i\<rparr>);
                          tr3 = tr2\<lparr>positionFirstSeenTime := (positionFirstSeenTime tr2)(posKey := None)\<rparr>;
                          plm1 = (if Reasoning dec \<noteq> [] \<and> clMarket2 env \<noteq> None
                                  then snd (SaveExitLogic (positionLogicManager tr3) (Symbol dec) side
                                              (Reasoning dec) (clSaveExitOk env))
                                  else positionLogicManager tr3);
                          plm2 = snd (DeleteLogic plm1 (Symbol dec) side (clDeleteLogicOk env));
                          tr4 = tr3\<lparr>positionLogicManager := plm2\<rparr>;
                          tr5 = recordTradeHistory tr4 (clRecorder env) side dec a3 False []
                      in (Inr (), a3, tr5))))))"

definition executeCloseLongWithRecord ::
  "AutoTrader \<Rightarrow> CloseEnv \<Rightarrow> Decision \<Rightarrow> DecisionAction
     \<Rightarrow> (close_error + unit) \<times> DecisionAction \<times> AutoTrader" where
  "executeCloseLongWithRecord = executeCloseWithRecord ''long''"

definition executeCloseShortWithRecord ::
  "AutoTrader \<Rightarrow> CloseEnv \<Rightarrow> Decision \<Rightarrow> DecisionAction
     \<Rightarrow> (close_error + unit) \<times> DecisionAction \<times> AutoTrader" where
  "executeCloseShortWithRecord = executeCloseWithRecord ''short''"

section \<open>The risk governor\<close>

datatype halt = DrawdownHalt | DailyLossHalt

text \<open>
  \<^verbatim>\<open>checkAndExecuteForcedStopLoss\<close>: update the peak equity and the daily PnL, then
  test the drawdown and, if it does not trigger, the daily loss. A halt sets
  \<^verbatim>\<open>stopUntil\<close> and force-closes every position of the context. The result says
  which halt was triggered, if any, and lists the forced actions.
\<close>

definition updateRiskFigures :: "AutoTrader \<Rightarrow> Context \<Rightarrow> time \<Rightarrow> AutoTrader" where
  "updateRiskFigures tr ctx now =
     (let tr1 = (if TotalEquity (Account ctx) > peakEquity tr
                 then tr\<lparr>peakEquity := TotalEquity (Account ctx)\<rparr> else tr)
      in if now - lastResetTime tr1 < 24 * Hour
         then tr1\<lparr>dailyPnL := TotalEquity (Account ctx) - dailyStartEquity tr1\<rparr>
         else tr1)"

definition drawdownBreached :: "AutoTrader \<Rightarrow> Context \<Rightarrow> bool" where
  "drawdownBreached tr ctx =
     (MaxDrawdown (config tr) > 0 \<and> peakEquity tr > 0
      \<and> ((peakEquity tr - TotalEquity (Account ctx)) / peakEquity tr) * 100 > MaxDrawdown (config tr))"

definition dailyLossBreached :: "AutoTrader \<Rightarrow> bool" where
  "dailyLossBreached tr =
     (MaxDailyLoss (config tr) > 0 \<and> dailyStartEquity tr > 0
      \<and> (dailyPnL tr / dailyStartEquity tr) * 100 < - MaxDailyLoss (config tr))"

definition drawdownReason :: string where "drawdownReason = ''account drawdown risk control''"
definition dailyLossReason :: string where "dailyLossReason = ''account daily loss risk control''"

definition checkAndExecuteForcedStopLoss ::
  "AutoTrader \<Rightarrow> Context \<Rightarrow> time \<Rightarrow> (nat \<Rightarrow> ForceCloseEnv)
     \<Rightarrow> halt option \<times> DecisionAction list \<times> AutoTrader" where
  "checkAndExecuteForcedStopLoss tr ctx now envs =
     (let tr1 = updateRiskFigures tr ctx now in
      if drawdownBreached tr1 ctx
      then (let tr2 = tr1\<lparr>stopUntil := Some (now + StopTradingTime (config tr1))\<rparr>
            in case forceCloseAllPositions tr2 envs drawdownReason ctx of
                 (actions, tr3) \<Rightarrow> (Some DrawdownHalt, actions, tr3))
      else if dailyLossBreached tr1
      then (let tr2 = tr1\<lparr>stopUntil := Some (now + StopTradingTime (config tr1))\<rparr>
            in case forceCloseAllPositions tr2 envs dailyLossReason ctx of
                 (actions, tr3) \<Rightarrow> (Some DailyLossHalt, actions, tr3))
      else (None, [], tr1))"

section \<open>The first steps of a cycle (runCycle)\<close>

text \<open>
  What a cycle is told by the outside up to its forced-stop-loss step: the clock (read
  once), the trading context (\<open>None\<close> when \<^verbatim>\<open>buildTradingContext\<close> fails), the
  inputs of the reconciler and of the force-closes.
\<close>

record CycleEnv =
  cyNow :: time
  cyContext :: "Context option"
  cySync :: SyncEnv
  cyForceClose :: "nat \<Rightarrow> ForceCloseEnv"

datatype cycle_outcome =
    Paused                \<comment> \<open>step 1: \<^verbatim>\<open>stopUntil\<close> lies in the future\<close>
  | ContextFailed         \<comment> \<open>step 2.5: \<^verbatim>\<open>buildTradingContext\<close> returned an error\<close>
  | Checked "halt option" "DecisionAction list"
                          \<comment> \<open>step 4 was reached, with its result\<close>

text \<open>Step 3: drop the marks of positions that are gone and older than the timeout.\<close>

definition cleanForcedMarks :: "AutoTrader \<Rightarrow> Context \<Rightarrow> time \<Rightarrow> AutoTrader" where
  "cleanForcedMarks tr ctx now =
     tr\<lparr>forcedClosedPositions :=
          (\<lambda>key. case forcedClosedPositions tr key of
                    None \<Rightarrow> None
                  | Some markTime \<Rightarrow>
                      if key \<notin> set (map (\<lambda>p. posKeyOf (piSymbol p) (piSide p)) (Positions ctx))
                         \<and> now - markTime > PositionStopLossRetryTimeout
                      then None else Some markTime)\<rparr>"

text \<open>Step 2.7: the daily reset when the context is available.\<close>

definition dailyReset :: "AutoTrader \<Rightarrow> Context \<Rightarrow> time \<Rightarrow> AutoTrader" where
  "dailyReset tr ctx now =
     (let tr1 = tr\<lparr>dailyStartEquity := TotalEquity (Account ctx), dailyPnL := 0\<rparr>;
          tr2 = (if TotalEquity (Account ctx) > peakEquity tr1
                 then tr1\<lparr>peakEquity := TotalEquity (Account ctx)\<rparr> else tr1)
      in tr2\<lparr>lastResetTime := now\<rparr>)"

text \<open>The reset made when the context cannot be built (inside step 2.5).\<close>

definition fallbackReset :: "AutoTrader \<Rightarrow> time \<Rightarrow> AutoTrader" where
  "fallbackReset tr now =
     tr\<lparr>dailyStartEquity := initialBalance tr, dailyPnL := 0,
        peakEquity := initialBalance tr, lastResetTime := now\<rparr>"

text \<open>
  \<^verbatim>\<open>runCycle\<close> from its start to the end of step 4. These steps hold every statement
  of \<^verbatim>\<open>runCycle\<close> that assigns \<^verbatim>\<open>peakEquity\<close>, \<^verbatim>\<open>dailyPnL\<close>,
  \<^verbatim>\<open>dailyStartEquity\<close>, \<^verbatim>\<open>lastResetTime\<close> or \<^verbatim>\<open>stopUntil\<close>; the steps after
  (asking the model, executing its decisions, persisting the record) are not modelled.
\<close>

definition runCycleToForcedStopLoss :: "AutoTrader \<Rightarrow> CycleEnv \<Rightarrow> cycle_outcome \<times> AutoTrader" where
  "runCycleToForcedStopLoss tr env =
     (let tr0 = tr\<lparr>callCount := callCount tr + 1\<rparr>;
          now = cyNow env;
          paused = (case stopUntil tr0 of None \<Rightarrow> False | Some u \<Rightarrow> now < u)
      in if paused then (Paused, tr0)
         else
           (let needResetDailyPnL = (now - lastResetTime tr0 > 24 * Hour)
            in case cyContext env of
                 None \<Rightarrow> (ContextFailed, if needResetDailyPnL then fallbackReset tr0 now else tr0)
               | Some ctx \<Rightarrow>
                   (let tr1 = snd (SyncManualTradesFromExchange tr0 (cySync env));
                        tr2 = (if needResetDailyPnL then dailyReset tr1 ctx now else tr1);
                        tr3 = cleanForcedMarks tr2 ctx now
                    in case checkAndExecuteForcedStopLoss tr3 ctx now (cyForceClose env) of
                         (h, actions, tr4) \<Rightarrow> (Checked h actions, tr4))))"

text \<open>
  The frame that \<^verbatim>\<open>runCycle\<close> puts around the execution of a decision. The cycle
  counter is incremented first (\<open>beginCycle\<close>). For each decision an action record
  is created with the action, the symbol, the leverage and the time of the clock
  (\<open>newActionRecord\<close>) and handed to the executor. When the executor returns no
  error the action is marked successful and appended to the decisions of the cycle,
  and the record of the cycle (cycle number, time, decisions) is inserted in the
  decision table: \<open>endCycle\<close> is that end for a cycle whose one decision succeeded.
\<close>

definition beginCycle :: "AutoTrader \<Rightarrow> AutoTrader" where
  "beginCycle tr = tr\<lparr>callCount := callCount tr + 1\<rparr>"

definition newActionRecord :: "Decision \<Rightarrow> time \<Rightarrow> DecisionAction" where
  "newActionRecord d now =
     \<lparr>aAction = Action d, aSymbol = Symbol d, Quantity = 0, aLeverage = Leverage d, Price = 0,
      OrderID = 0, Timestamp = now, aSuccess = False, aError = [], aIsForced = False,
      aForcedReason = []\<rparr>"

definition endCycle :: "AutoTrader \<Rightarrow> time \<Rightarrow> DecisionAction \<Rightarrow> AutoTrader" where
  "endCycle tr now a =
     tr\<lparr>decisionTable := decisionTable tr @
          [\<lparr>CycleNumber = callCount tr, rTimestamp = now,
            rDecisions = Some [a\<lparr>aSuccess := True\<rparr>]\<rparr>]\<rparr>"

section \<open>The stop-loss watchdog (checkPositionStopLossOnly)\<close>

text \<open>
  The leveraged PnL of a position in per cent. Without a \<^verbatim>\<open>leverage\<close> field the
  leverage is 10. Any side other than \<^verbatim>\<open>"long"\<close> takes the short formula.
\<close>

definition leverageOf :: "ExPosition \<Rightarrow> int" where
  "leverageOf pos = (case pLeverage pos of None \<Rightarrow> 10 | Some lev \<Rightarrow> truncInt lev)"

definition pnlPctOf :: "ExPosition \<Rightarrow> real" where
  "pnlPctOf pos =
     (if pSide pos = ''long''
      then ((markPrice pos - entryPrice pos) / entryPrice pos) * real_of_int (leverageOf pos) * 100
      else ((entryPrice pos - markPrice pos) / entryPrice pos) * real_of_int (leverageOf pos) * 100)"

text \<open>The threshold in force: a configured \<open>0\<close> is replaced by \<open>10\<close>.\<close>

definition effectiveStopLossPct :: "AutoTraderConfig \<Rightarrow> real" where
  "effectiveStopLossPct cfg = (if PositionStopLossPct cfg = 0 then 10 else PositionStopLossPct cfg)"

datatype trigger = StopLossTrigger | TakeProfitTrigger

text \<open>
  The decision the loop body takes for one position: the stop-loss test comes first and
  ends the iteration when it fires (\<^verbatim>\<open>continue\<close>); the take-profit test runs only
  with a configured percentage \<open>> 0\<close>.
\<close>

definition watchdogTrigger :: "AutoTraderConfig \<Rightarrow> ExPosition \<Rightarrow> trigger option" where
  "watchdogTrigger cfg pos =
     (let pnlPct = pnlPctOf pos in
      if pnlPct < 0 \<and> - pnlPct \<ge> effectiveStopLossPct cfg then Some StopLossTrigger
      else if PositionTakeProfitPct cfg > 0 \<and> pnlPct > 0 \<and> pnlPct \<ge> PositionTakeProfitPct cfg
      then Some TakeProfitTrigger
      else None)"

definition stopLossReason :: string where "stopLossReason = ''position loss exceeds limit''"
definition takeProfitReason :: string where "takeProfitReason = ''position profit reached target''"

text \<open>
  The loop over the positions: a triggered position is force-closed; the action is
  appended whether or not the close succeeded; after a successful close the first-seen
  time of the position is dropped. The reason texts carry the two percentages in the
  source and are abbreviated here.
\<close>

fun watchdogLoop ::
  "AutoTrader \<Rightarrow> (nat \<Rightarrow> ForceCloseEnv) \<Rightarrow> nat \<Rightarrow> ExPosition list \<Rightarrow> DecisionAction list \<times> AutoTrader" where
  "watchdogLoop tr envs i [] = ([], tr)"
| "watchdogLoop tr envs i (pos # rest) =
     (case watchdogTrigger (config tr) pos of
        None \<Rightarrow> watchdogLoop tr envs (Suc i) rest
      | Some trg \<Rightarrow>
          (case forceClosePosition tr (envs i) (pSymbol pos) (pSide pos)
                  (if trg = StopLossTrigger then stopLossReason else takeProfitReason) of
             (err, action, tr1) \<Rightarrow>
               (let tr2 = (if err = None
                           then tr1\<lparr>positionFirstSeenTime :=
                                     (positionFirstSeenTime tr1)(posKeyOf (pSymbol pos) (pSide pos) := None)\<rparr>
                           else tr1)
                in case watchdogLoop tr2 envs (Suc i) rest of
                     (actions, tr3) \<Rightarrow> (action # actions, tr3))))"

text \<open>
  What a watchdog tick is told by the outside: whether the trader is running, the
  positions (\<open>None\<close> for an error), the clock, the inputs of the force-closes and
  whether the write of the audit record succeeded.
\<close>

record WatchdogEnv =
  wdRunning :: bool
  wdPositions :: "ExPosition list option"
  wdNow :: time
  wdForceClose :: "nat \<Rightarrow> ForceCloseEnv"
  wdLogOk :: bool

definition checkPositionStopLossOnly :: "AutoTrader \<Rightarrow> WatchdogEnv \<Rightarrow> DecisionAction list \<times> AutoTrader" where
  "checkPositionStopLossOnly tr env =
     (if \<not> wdRunning env then ([], tr)
      else case wdPositions env of
             None \<Rightarrow> ([], tr)
           | Some positions \<Rightarrow>
               (case watchdogLoop tr (wdForceClose env) 0 positions of
                  (forcedActions, tr1) \<Rightarrow>
                    if forcedActions \<noteq> [] \<and> wdLogOk env
                    then (forcedActions,
                          tr1\<lparr>decisionTable := decisionTable tr1 @
                                 [\<lparr>CycleNumber = 0, rTimestamp = wdNow env,
                                   rDecisions = Some forcedActions\<rparr>]\<rparr>)
                    else (forcedActions, tr1)))"

section \<open>Statements of the specification about trade rows\<close>

text \<open>The key \<^verbatim>\<open>(symbol, open_time)\<close> occurs at most once in the table.\<close>

definition uniqueKeys :: "trade_table \<Rightarrow> bool" where
  "uniqueKeys db = distinct (map (\<lambda>r. (tSymbol r, OpenTime r)) db)"

text \<open>
  PnL and PnL per cent as the specification recomputes them from
  \<open>(side, open_price, close_price, open_quantity, open_leverage)\<close>: the price move
  times the quantity, mirrored for a short; the margin is
  \<open>open_quantity * open_price / open_leverage\<close>; the percentage is taken of a
  positive margin and is \<open>0\<close> otherwise.
\<close>

definition pnlFromFields :: "TradeRecord \<Rightarrow> real" where
  "pnlFromFields r =
     (if Side r = ''long'' then OpenQuantity r * (ClosePrice r - OpenPrice r)
      else OpenQuantity r * (OpenPrice r - ClosePrice r))"

definition marginFromFields :: "TradeRecord \<Rightarrow> real" where
  "marginFromFields r = OpenQuantity r * OpenPrice r / real_of_int (OpenLeverage r)"

definition pnlPctOfMargin :: "real \<Rightarrow> TradeRecord \<Rightarrow> real" where
  "pnlPctOfMargin pnl r =
     (if marginFromFields r > 0 then (pnl / marginFromFields r) * 100 else 0)"

section \<open>Opening a position\<close>

datatype open_error =
    ExistingPosition              \<comment> \<open>a position of the symbol and side exists\<close>
  | ContextBuildFailed            \<comment> \<open>\<^verbatim>\<open>buildTradingContext\<close> returned an error\<close>
  | MarginCheckFailed margin_error
  | ConcurrentPosition            \<comment> \<open>the second look at the positions found one\<close>
  | MarketGetFailed
  | PriceInvalid
  | FormatFailed                  \<comment> \<open>\<^verbatim>\<open>FormatQuantity\<close> returned an error\<close>
  | ParseFailed                   \<comment> \<open>the formatted quantity does not parse\<close>
  | QuantityTooSmall
  | OpenOrderFailed

text \<open>
  \<^verbatim>\<open>trader.FormatQuantity\<close> (the lot rounding of the exchange) followed by
  \<^verbatim>\<open>strconv.ParseFloat\<close>.
\<close>

datatype format_result = FormatError | Unparsable | Formatted real

text \<open>
  What an open is told by the outside, in the order of the calls: the positions, the
  trading context, the market price read by the margin check, the positions again, the
  market price again, the lot rounding, the result of the open order, the clock in
  milliseconds, and whether each write to the position-logic table succeeded. Placing
  the stop and take orders on the exchange changes no state of the trader (a failure
  is logged) and is left out.
\<close>

record OpenEnv =
  opPositions1 :: "ExPosition list option"
  opContext :: "Context option"
  opMarket1 :: "real option"
  opPositions2 :: "ExPosition list option"
  opMarket2 :: "real option"
  opFormatQuantity :: "string \<Rightarrow> real \<Rightarrow> format_result"
  opOrder :: "int option option"
  opNowMs :: int
  opSaveFirstSeenOk :: bool
  opSavePricesGetOk :: bool
  opSavePricesExecOk :: bool
  opSavePricesReloadOk :: bool
  opSaveEntryOk :: bool
  opSaveExitOk :: bool

definition hasPosition :: "ExPosition list option \<Rightarrow> string \<Rightarrow> string \<Rightarrow> bool" where
  "hasPosition positions symbol side =
     (case positions of
        None \<Rightarrow> False
      | Some ps \<Rightarrow> filter (\<lambda>p. pSymbol p = symbol \<and> pSide p = side) ps \<noteq> [])"

text \<open>
  The bookkeeping after a successful open order: first-seen time in the map and in the
  table, stop and take prices, entry logic and (when given) exit logic. Each write that
  fails is logged and skipped. The entry and exit logic saved are the two reasoning
  texts of the decision.
\<close>

definition recordOpenedPosition :: "string \<Rightarrow> AutoTrader \<Rightarrow> OpenEnv \<Rightarrow> Decision \<Rightarrow> AutoTrader" where
  "recordOpenedPosition side tr env dec =
     (let posKey = posKeyOf (Symbol dec) side;
          plm0 = positionLogicManager tr;
          plm1 = snd (SaveFirstSeenTime plm0 (Symbol dec) side (opNowMs env)
                        (opSaveFirstSeenOk env));
          plm2 = (if StopLoss dec > 0 \<or> TakeProfit dec > 0
                  then snd (SaveStopLossAndTakeProfit plm1 (Symbol dec) side (StopLoss dec)
                              (TakeProfit dec) (opSavePricesGetOk env) (opSavePricesExecOk env)
                              (opSavePricesReloadOk env))
                  else plm1);
          plm3 = (if Reasoning dec \<noteq> []
                  then snd (SaveEntryLogic plm2 (Symbol dec) side (Reasoning dec)
                              (opSaveEntryOk env))
                  else plm2);
          plm4 = (if Reasoning dec \<noteq> [] \<and> ExitReasoning dec \<noteq> []
                  then snd (SaveExitLogic plm3 (Symbol dec) side (ExitReasoning dec)
                              (opSaveExitOk env))
                  else plm3)
      in tr\<lparr>positionFirstSeenTime := (positionFirstSeenTime tr)(posKey \<mapsto> opNowMs env),
            positionLogicManager := plm4\<rparr>)"

text \<open>
  \<^verbatim>\<open>executeOpenLongWithRecord\<close> and \<^verbatim>\<open>executeOpenShortWithRecord\<close> are the same
  text up to the side: \<open>executeOpenWithRecord\<close> is that text with the side as a
  parameter. Neither function calls the trade storage.
\<close>

definition executeOpenWithRecord ::
  "string \<Rightarrow> AutoTrader \<Rightarrow> OpenEnv \<Rightarrow> Decision \<Rightarrow> DecisionAction
     \<Rightarrow> (open_error + unit) \<times> DecisionAction \<times> AutoTrader" where
  "executeOpenWithRecord side tr env dec actionRecord =
     (if hasPosition (opPositions1 env) (Symbol dec) side then (Inl ExistingPosition, actionRecord, tr)
      else case opContext env of
        None \<Rightarrow> (Inl ContextBuildFailed, actionRecord, tr)
      | Some ctx \<Rightarrow>
         (case checkMarginAndBalanceSafety ctx dec (opMarket1 env) of
            Inl e \<Rightarrow> (Inl (MarginCheckFailed e), actionRecord, tr)
          | Inr u \<Rightarrow>
             if hasPosition (opPositions2 env) (Symbol dec) side
             then (Inl ConcurrentPosition, actionRecord, tr)
             else (case opMarket2 env of
                None \<Rightarrow> (Inl MarketGetFailed, actionRecord, tr)
              | Some currentPrice \<Rightarrow>
                 if currentPrice \<le> 0 then (Inl PriceInvalid, actionRecord, tr)
                 else (case opFormatQuantity env (Symbol dec) (PositionSizeUSD dec / currentPrice) of
                    FormatError \<Rightarrow> (Inl FormatFailed, actionRecord, tr)
                  | Unparsable \<Rightarrow> (Inl ParseFailed, actionRecord, tr)
                  | Formatted formattedQuantity \<Rightarrow>
                     if formattedQuantity < MinPositionSizeUSD / currentPrice
                     then (Inl QuantityTooSmall, actionRecord, tr)
                     else
                       (let a1 = actionRecord\<lparr>Quantity := formattedQuantity, Price := currentPrice\<rparr>
                        in case opOrder env of
                             None \<Rightarrow> (Inl OpenOrderFailed, a1, tr)
                           | Some oid \<Rightarrow>
                               (Inr (),
                                (case oid of None \<Rightarrow> a1 | Some i \<Rightarrow> a1\<lparr>OrderID := i\<rparr>),
                                recordOpenedPosition side tr env dec))))))"

definition executeOpenLongWithRecord ::
  "AutoTrader \<Rightarrow> OpenEnv \<Rightarrow> Decision \<Rightarrow> DecisionAction
     \<Rightarrow> (open_error + unit) \<times> DecisionAction \<times> AutoTrader" where
  "executeOpenLongWithRecord = executeOpenWithRecord ''long''"

definition executeOpenShortWithRecord ::
  "AutoTrader \<Rightarrow> OpenEnv \<Rightarrow> Decision \<Rightarrow> DecisionAction
     \<Rightarrow> (open_error + unit) \<times> DecisionAction \<times> AutoTrader" where
  "executeOpenShortWithRecord = executeOpenWithRecord ''short''"

section \<open>Updating the stop-loss (executeUpdateStopLoss)\<close>

datatype update_error =
    StopLossNotPositive
  | GetPositionsFailed
  | PositionNotFound
  | QuantityInvalid
  | MarketUnavailable
  | PriceNotPositive
  | StopNotBelowPrice           \<comment> \<open>long: the stop must be below the current price\<close>
  | StopNotAbovePrice           \<comment> \<open>short: the stop must be above the current price\<close>
  | StopMovesDown               \<comment> \<open>long: the new stop is below the stored stop\<close>
  | StopMovesUp                 \<comment> \<open>short: the new stop is above the stored stop\<close>
  | StopNotBelowTake
  | StopNotAboveTake
  | PriceNotBetween
  | CancelOrdersFailed
  | SetStopFailedRestored
  | SetStopFailedRollbackFailed
  | SetTakeFailedRestored
  | SetTakeFailedRollbackFailed

text \<open>
  \<^verbatim>\<open>CancelAllOrders\<close>: success, an error whose text says that there was no order
  (\<^verbatim>\<open>"no orders"\<close>, \<^verbatim>\<open>"not found"\<close> or the Chinese for it), or another error.
\<close>

datatype cancel_result = Cancelled | NoOrdersToCancel | CancelFailed

text \<open>
  What an update of the stop is told by the outside, in the order of the calls; the
  flags named \<open>Ok\<close> say whether a read or write of the position-logic table, or an
  order call, succeeded.
\<close>

record UpdateEnv =
  upPositions :: "ExPosition list option"
  upLogicOk1 :: bool
  upMarket :: "real option"
  upLogicOk2 :: bool
  upCancel :: cancel_result
  upSetStopLossOk :: bool
  upSetTakeProfitOk :: bool
  upRollbackStopOk :: bool
  upRollbackTakeOk :: bool
  upLogicOk3 :: bool
  upSaveGetOk :: bool
  upSaveExecOk :: bool
  upSaveReloadOk :: bool
  upVerifyOk :: bool

text \<open>\<^verbatim>\<open>findPositionBySymbol\<close>: the first position of the symbol with a quantity.\<close>

definition findPositionBySymbol :: "ExPosition list option \<Rightarrow> string \<Rightarrow> update_error + ExPosition" where
  "findPositionBySymbol positions symbol =
     (case positions of
        None \<Rightarrow> Inl GetPositionsFailed
      | Some ps \<Rightarrow>
          (case find (\<lambda>p. pSymbol p = symbol \<and> \<bar>positionAmt p\<bar> > 0) ps of
             None \<Rightarrow> Inl PositionNotFound
           | Some p \<Rightarrow> Inr p))"

text \<open>
  Step 3: the request is a no-op when a stop is stored and the new stop differs from it
  by less than 0.5 per cent of it, in either direction.
\<close>

definition smallChange :: "PositionLogic option \<Rightarrow> Decision \<Rightarrow> bool" where
  "smallChange existingLogic dec =
     (case existingLogic of
        None \<Rightarrow> False
      | Some l \<Rightarrow> lStopLoss l > 0 \<and> \<bar>(StopLoss dec - lStopLoss l) / lStopLoss l\<bar> < 5 / 1000)"

text \<open>
  Step 5, after the check against the current price: the check of the new stop against
  the stored stop (the stop may only move up for a long and down for any other side)
  and against a take price given with it. \<open>None\<close> means that all passed.
\<close>

definition validateStop :: "string \<Rightarrow> Decision \<Rightarrow> real \<Rightarrow> PositionLogic option \<Rightarrow> update_error option" where
  "validateStop positionSide dec currentPrice oldLogic =
     (if (case oldLogic of None \<Rightarrow> False
          | Some l \<Rightarrow> lStopLoss l > 0 \<and> positionSide = ''long''
                       \<and> StopLoss dec < lStopLoss l) then Some StopMovesDown
      else if (case oldLogic of None \<Rightarrow> False
               | Some l \<Rightarrow> lStopLoss l > 0 \<and> positionSide \<noteq> ''long''
                            \<and> StopLoss dec > lStopLoss l) then Some StopMovesUp
      else if TakeProfit dec > 0 then
        (if positionSide = ''long''
         then (if StopLoss dec \<ge> TakeProfit dec then Some StopNotBelowTake
               else if StopLoss dec \<ge> currentPrice \<or> TakeProfit dec \<le> currentPrice
               then Some PriceNotBetween else None)
         else (if StopLoss dec \<le> TakeProfit dec then Some StopNotAboveTake
               else if TakeProfit dec \<ge> currentPrice \<or> StopLoss dec \<le> currentPrice
               then Some PriceNotBetween else None))
      else None)"

text \<open>Step 7: the take price to keep when the decision gives none.\<close>

definition preserveTakeProfit :: "Decision \<Rightarrow> PositionLogic option \<Rightarrow> real" where
  "preserveTakeProfit dec oldLogic =
     (if TakeProfit dec \<le> 0
      then (case oldLogic of None \<Rightarrow> TakeProfit dec
            | Some l \<Rightarrow> if lTakeProfit l > 0 then lTakeProfit l else TakeProfit dec)
      else TakeProfit dec)"

text \<open>\<^verbatim>\<open>rollbackOrders\<close>: \<open>True\<close> when every order it had to restore was placed.\<close>

definition rollbackOrders :: "UpdateEnv \<Rightarrow> real \<Rightarrow> real \<Rightarrow> bool" where
  "rollbackOrders env oldStopLoss oldTakeProfit =
     (\<not> (oldStopLoss > 0 \<and> \<not> upRollbackStopOk env)
      \<and> \<not> (oldTakeProfit > 0 \<and> \<not> upRollbackTakeOk env))"

text \<open>
  Steps 8 to 10: cancel the orders of the symbol, place the new stop, place the take
  again; a failed placement rolls back to the old pair. \<open>None\<close> means that the orders
  are in place.
\<close>

definition replaceOrders :: "UpdateEnv \<Rightarrow> Decision \<Rightarrow> PositionLogic option \<Rightarrow> update_error option" where
  "replaceOrders env dec oldLogic =
     (let keepTake = preserveTakeProfit dec oldLogic;
          oldStopLossOrder = (case oldLogic of None \<Rightarrow> 0
                              | Some l \<Rightarrow> if lStopLoss l > 0 then lStopLoss l else 0);
          oldTakeProfitOrder = keepTake
      in if upCancel env = CancelFailed then Some CancelOrdersFailed
         else if \<not> upSetStopLossOk env
         then (if rollbackOrders env oldStopLossOrder oldTakeProfitOrder
               then Some SetStopFailedRestored else Some SetStopFailedRollbackFailed)
         else if keepTake > 0 \<and> \<not> upSetTakeProfitOk env
         then (if rollbackOrders env oldStopLossOrder oldTakeProfitOrder
               then Some SetTakeFailedRestored else Some SetTakeFailedRollbackFailed)
         else None)"

text \<open>
  Step 11: the prices are saved after a read of the current values; a successful save
  is followed by a read that verifies it. The reads only refresh the cache. The take
  price saved (\<^verbatim>\<open>saveTakeProfit\<close>) always equals the take price kept in step 7.
\<close>

definition saveNewStop :: "PositionLogicWrapper \<Rightarrow> UpdateEnv \<Rightarrow> string \<Rightarrow> string \<Rightarrow> real \<Rightarrow> real \<Rightarrow> PositionLogicWrapper" where
  "saveNewStop plm env symbol side stopLoss saveTakeProfit =
     (let plm1 = snd (GetLogic plm symbol side (upLogicOk3 env))
      in case SaveStopLossAndTakeProfit plm1 symbol side stopLoss saveTakeProfit
                (upSaveGetOk env) (upSaveExecOk env) (upSaveReloadOk env) of
           (Inl e, plm2) \<Rightarrow> plm2
         | (Inr u, plm2) \<Rightarrow> snd (GetLogic plm2 symbol side (upVerifyOk env)))"

text \<open>
  \<^verbatim>\<open>executeUpdateStopLoss\<close>. A skipped request returns \<^verbatim>\<open>nil\<close> with the error field
  of the action record starting with \<^verbatim>\<open>"SKIPPED: "\<close> (the rest of the text renders
  the two prices).
\<close>

definition executeUpdateStopLoss ::
  "AutoTrader \<Rightarrow> UpdateEnv \<Rightarrow> Decision \<Rightarrow> DecisionAction
     \<Rightarrow> (update_error + unit) \<times> DecisionAction \<times> AutoTrader" where
  "executeUpdateStopLoss tr env dec actionRecord =
     (if StopLoss dec \<le> 0 then (Inl StopLossNotPositive, actionRecord, tr)
      else case findPositionBySymbol (upPositions env) (Symbol dec) of
        Inl e \<Rightarrow> (Inl e, actionRecord, tr)
      | Inr foundPosition \<Rightarrow>
         (case GetLogic (positionLogicManager tr) (Symbol dec) (pSide foundPosition) (upLogicOk1 env) of
            (existingLogic, plm1) \<Rightarrow>
              if smallChange existingLogic dec
              then (Inr (),
                    actionRecord\<lparr>Price := (case existingLogic of None \<Rightarrow> 0 | Some l \<Rightarrow> lStopLoss l),
                                 Quantity := \<bar>positionAmt foundPosition\<bar>,
                                 aError := ''SKIPPED: ''\<rparr>,
                    tr\<lparr>positionLogicManager := plm1\<rparr>)
              else if \<bar>positionAmt foundPosition\<bar> \<le> 0
              then (Inl QuantityInvalid, actionRecord, tr\<lparr>positionLogicManager := plm1\<rparr>)
              else (case upMarket env of
                 None \<Rightarrow> (Inl MarketUnavailable, actionRecord, tr\<lparr>positionLogicManager := plm1\<rparr>)
               | Some currentPrice \<Rightarrow>
                  if currentPrice \<le> 0
                  then (Inl PriceNotPositive, actionRecord, tr\<lparr>positionLogicManager := plm1\<rparr>)
                  else
                    (let a1 = actionRecord\<lparr>Price := currentPrice,
                                            Quantity := \<bar>positionAmt foundPosition\<bar>\<rparr>
                     in if pSide foundPosition = ''long'' \<and> StopLoss dec \<ge> currentPrice
                        then (Inl StopNotBelowPrice, a1, tr\<lparr>positionLogicManager := plm1\<rparr>)
                        else if pSide foundPosition \<noteq> ''long'' \<and> StopLoss dec \<le> currentPrice
                        then (Inl StopNotAbovePrice, a1, tr\<lparr>positionLogicManager := plm1\<rparr>)
                        else
                          (case GetLogic plm1 (Symbol dec) (pSide foundPosition) (upLogicOk2 env) of
                             (oldLogic, plm2) \<Rightarrow>
                               (case validateStop (pSide foundPosition) dec currentPrice oldLogic of
                                  Some e \<Rightarrow> (Inl e, a1, tr\<lparr>positionLogicManager := plm2\<rparr>)
                                | None \<Rightarrow>
                                   (case replaceOrders env dec oldLogic of
                                      Some e \<Rightarrow> (Inl e, a1, tr\<lparr>positionLogicManager := plm2\<rparr>)
                                    | None \<Rightarrow>
                                       (Inr (), a1,
                                        tr\<lparr>positionLogicManager :=
                                             saveNewStop plm2 env (Symbol dec) (pSide foundPosition)
                                               (StopLoss dec) (preserveTakeProfit dec oldLogic)\<rparr>))))))))"

section \<open>Concrete inputs\<close>

text \<open>
  The inputs of the end-to-end scenarios of the specification and of the boundary
  cases, as constants, for the theorems that evaluate the model on them.
\<close>

definition mkDecision :: "string \<Rightarrow> string \<Rightarrow> int \<Rightarrow> real \<Rightarrow> real \<Rightarrow> real \<Rightarrow> Decision" where
  "mkDecision symbol action lev usd sl tp =
     \<lparr>Symbol = symbol, Action = action, Leverage = lev, PositionSizeUSD = usd,
      StopLoss = sl, TakeProfit = tp, Confidence = 0, RiskUSD = 0, Reasoning = ''r'',
      ExitReasoning = ''e''\<rparr>"

text \<open>Scenario 2: the open of scenario 1 with the stop at 59900.\<close>

definition tightStopOpen :: Decision where
  "tightStopOpen = mkDecision ''BTCUSDT'' ''open_long'' 10 2000 59900 62000"

definition freshAccount :: Context where
  "freshAccount =
     \<lparr>Account = \<lparr>TotalEquity = 10000, AvailableBalance = 10000, TotalPnL = 0, TotalPnLPct = 0,
                  acMarginUsed = 0, MarginUsedPct = 0, PositionCount = 0\<rparr>,
      Positions = []\<rparr>"

text \<open>Two stop updates for one symbol, followed by a close of another symbol.\<close>

definition firstUpdate :: Decision where
  "firstUpdate = mkDecision ''BTCUSDT'' ''update_sl'' 0 0 58500 0"

definition lastUpdate :: Decision where
  "lastUpdate = mkDecision ''BTCUSDT'' ''update_sl'' 0 0 59000 0"

definition closeOther :: Decision where
  "closeOther = mkDecision ''ETHUSDT'' ''close_long'' 0 0 0 0"

text \<open>A trader with an initial balance of 10000, no position and empty tables.\<close>

definition baseConfig :: AutoTraderConfig where
  "baseConfig = \<lparr>BTCETHLeverage = 10, AltcoinLeverage = 5, MaxDailyLoss = 5, MaxDrawdown = 0,
                  PositionStopLossPct = 0, PositionTakeProfitPct = 0,
                  StopTradingTime = 60 * Minute\<rparr>"

definition emptyWrapper :: PositionLogicWrapper where
  "emptyWrapper = \<lparr>storage = Map.empty, cache = Map.empty\<rparr>"

definition baseTrader :: AutoTrader where
  "baseTrader =
     \<lparr>config = baseConfig, initialBalance = 10000, dailyPnL = 0, dailyStartEquity = 10000,
      lastResetTime = 0, stopUntil = None, callCount = 0,
      positionFirstSeenTime = Map.empty, peakEquity = 10000,
      forcedClosedPositions = Map.empty, closingPositions = {},
      positionLogicManager = emptyWrapper, trades = [], decisionTable = []\<rparr>"

definition accountWithEquity :: "real \<Rightarrow> Context" where
  "accountWithEquity e =
     \<lparr>Account = \<lparr>TotalEquity = e, AvailableBalance = e, TotalPnL = e - 10000,
                  TotalPnLPct = (e - 10000) / 100, acMarginUsed = 0, MarginUsedPct = 0,
                  PositionCount = 0\<rparr>,
      Positions = []\<rparr>"

definition quietRecorder :: RecorderEnv where
  "quietRecorder = \<lparr>reRecordsOk = True, rePositions = Some [], reLogicOk = True,
                     reRecordsOk1 = True, reRecordsOk2 = True\<rparr>"

definition failingClose :: "time \<Rightarrow> ForceCloseEnv" where
  "failingClose now = \<lparr>fcNow = now, fcMarket = Some 58900, fcOrder = None,
                        fcDeleteLogicOk = True, fcRecorder = quietRecorder\<rparr>"


definition noSync :: SyncEnv where
  "noSync = \<lparr>syAccountTrades = Some [], syLocalOk = True, syPositions = (\<lambda>k. Some []),
              syLeverageReadOk = (\<lambda>k. True), syOpenReadOk = (\<lambda>k. True)\<rparr>"

text \<open>Scenario 4: a long from 60000 marked at 58900 with leverage 10.\<close>

definition losingLong :: ExPosition where
  "losingLong = \<lparr>pSymbol = ''BTCUSDT'', pSide = ''long'', entryPrice = 60000,
                  markPrice = 58900, positionAmt = 1 / 30, pLeverage = Some 10\<rparr>"

text \<open>An AI-driven close whose order the exchange rejects.\<close>

definition rejectedClose :: CloseEnv where
  "rejectedClose = \<lparr>clMarket = Some 58900, clOrder = None, clPositions = Some [],
                     clMarket2 = Some 58900, clSaveExitOk = True, clDeleteLogicOk = True,
                     clRecorder = quietRecorder\<rparr>"

definition closeBtcLong :: Decision where
  "closeBtcLong = mkDecision ''BTCUSDT'' ''close_long'' 0 0 0 0"

text \<open>
  Scenario 6: two fills of the close order 111 (SELL, 1 at 2000 and 2 at 2010, realized
  PnL 4.11 + 8.23 = 12.34) and the fill of the open order 100 (BUY, 3 at 1950), all for
  ETHUSDT, times in milliseconds.
\<close>

definition mkFill :: "real \<Rightarrow> string \<Rightarrow> real \<Rightarrow> real \<Rightarrow> real \<Rightarrow> real \<Rightarrow> Fill" where
  "mkFill oid sd tm price qty pnl =
     \<lparr>fSymbol = Some ''ETHUSDT'', fOrderId = JFloat oid, fSide = sd, fTime = Some tm,
      fTimestamp = None, fPrice = Number price, fQty = Number qty, fQuantity = NotAString,
      fRealizedPnl = Number pnl\<rparr>"

definition manualCloseFills :: "Fill list" where
  "manualCloseFills =
     [mkFill 100 ''BUY'' 1700000000000 1950 3 0,
      mkFill 111 ''SELL'' 1700000100000 2000 1 (411 / 100),
      mkFill 111 ''SELL'' 1700000101000 2010 2 (823 / 100)]"

definition manualCloseSync :: SyncEnv where
  "manualCloseSync = \<lparr>syAccountTrades = Some manualCloseFills, syLocalOk = True,
                       syPositions = (\<lambda>k. Some []), syLeverageReadOk = (\<lambda>k. True),
                       syOpenReadOk = (\<lambda>k. True)\<rparr>"

text \<open>
  A long opened by the agent at \<open>t0\<close> (price 60000, quantity 1/30, leverage 10) and
  closed by the model at \<open>t1\<close> at 61000: the two actions, the decision record of the
  open cycle, and a trader whose decision table holds that record.
\<close>

definition t0 :: time where "t0 = 1700000000 * Second"
definition t1 :: time where "t1 = 1700003600 * Second"

definition openedLong :: DecisionAction where
  "openedLong = \<lparr>aAction = ''open_long'', aSymbol = ''BTCUSDT'', Quantity = 1 / 30,
                  aLeverage = 10, Price = 60000, OrderID = 100, Timestamp = t0,
                  aSuccess = True, aError = [], aIsForced = False, aForcedReason = []\<rparr>"

definition closingLong :: DecisionAction where
  "closingLong = \<lparr>aAction = ''close_long'', aSymbol = ''BTCUSDT'', Quantity = 0,
                   aLeverage = 0, Price = 61000, OrderID = 111, Timestamp = t1,
                   aSuccess = False, aError = [], aIsForced = False, aForcedReason = []\<rparr>"

definition openCycleRecord :: StoredDecisionRecord where
  "openCycleRecord = \<lparr>CycleNumber = 1, rTimestamp = t0, rDecisions = Some [openedLong]\<rparr>"

text \<open>The trader after the cycle of that open, and a recorder that sees the position.\<close>

definition traderWithoutRow :: AutoTrader where
  "traderWithoutRow = baseTrader\<lparr>callCount := 2, decisionTable := [openCycleRecord]\<rparr>"

definition seeingRecorder :: RecorderEnv where
  "seeingRecorder = \<lparr>reRecordsOk = True, rePositions = Some [losingLong], reLogicOk = True,
                      reRecordsOk1 = True, reRecordsOk2 = True\<rparr>"

text \<open>
  Scenario 1: the accepted open at 60000 of 2000 USD with leverage 10, with a lot size
  of one thousandth.
\<close>

definition happyOpen :: Decision where
  "happyOpen = mkDecision ''BTCUSDT'' ''open_long'' 10 2000 58000 62000"

definition lotRound :: "string \<Rightarrow> real \<Rightarrow> format_result" where
  "lotRound symbol q = Formatted (real_of_int \<lfloor>q * 1000\<rfloor> / 1000)"

definition happyOpenEnv :: OpenEnv where
  "happyOpenEnv = \<lparr>opPositions1 = Some [], opContext = Some freshAccount,
                    opMarket1 = Some 60000, opPositions2 = Some [], opMarket2 = Some 60000,
                    opFormatQuantity = lotRound, opOrder = Some (Some 100),
                    opNowMs = 1700000000000, opSaveFirstSeenOk = True,
                    opSavePricesGetOk = True, opSavePricesExecOk = True,
                    opSavePricesReloadOk = True, opSaveEntryOk = True, opSaveExitOk = True\<rparr>"

text \<open>
  Scenario 3: a long with a stored stop of 58000 and a take of 62000, the price at
  60100, and an exchange and a table that do what they are asked.
\<close>

definition heldLong :: ExPosition where
  "heldLong = \<lparr>pSymbol = ''BTCUSDT'', pSide = ''long'', entryPrice = 60000,
                markPrice = 60100, positionAmt = 33 / 1000, pLeverage = Some 10\<rparr>"

definition storedLogic :: PositionLogic where
  "storedLogic = \<lparr>lEntryLogic = Some ''r'', lExitLogic = Some ''e'', lStopLoss = 58000,
                   lTakeProfit = 62000, FirstSeenTime = 1700000000000\<rparr>"

definition traderWithStop :: AutoTrader where
  "traderWithStop =
     baseTrader\<lparr>positionLogicManager :=
       \<lparr>storage = [(''BTCUSDT'', ''long'') \<mapsto> storedLogic], cache = Map.empty\<rparr>\<rparr>"

definition calmUpdate :: UpdateEnv where
  "calmUpdate = \<lparr>upPositions = Some [heldLong], upLogicOk1 = True, upMarket = Some 60100,
                  upLogicOk2 = True, upCancel = Cancelled, upSetStopLossOk = True,
                  upSetTakeProfitOk = True, upRollbackStopOk = True, upRollbackTakeOk = True,
                  upLogicOk3 = True, upSaveGetOk = True, upSaveExecOk = True,
                  upSaveReloadOk = True, upVerifyOk = True\<rparr>"

definition updateStopTo :: "real \<Rightarrow> Decision" where
  "updateStopTo s = mkDecision ''BTCUSDT'' ''update_sl'' 0 0 s 0"


text \<open>
  Two round trips of a BTCUSDT long, each step run by the executor of its cycle on
  the state that the cycle before left:
  \<^item> cycle 1, at \<open>t0\<close>: the open of scenario 1 (price 60000, order 100);
  \<^item> cycle 2, at \<open>t1 = t0 + 1 h\<close>: the close, filled at 61000 (order 111);
  \<^item> cycle 3, at \<open>t2 = t0 + 2 h\<close>: the same open again, at 61500 (order 120);
  \<^item> cycle 4, at \<open>t3 = t0 + 3 h\<close>: the close of the second long, filled at 62000
    (order 131).
  The exchange shows no position before an open and none after a close, and every
  read and write of the tables succeeds.
\<close>

definition t2 :: time where "t2 = 1700007200 * Second"
definition t3 :: time where "t3 = 1700010800 * Second"

definition reopenEnv :: OpenEnv where
  "reopenEnv = happyOpenEnv\<lparr>opMarket1 := Some 61500, opMarket2 := Some 61500,
                             opOrder := Some (Some 120), opNowMs := 1700007200000\<rparr>"

definition filledClose :: "real \<Rightarrow> int \<Rightarrow> CloseEnv" where
  "filledClose price oid =
     \<lparr>clMarket = Some price, clOrder = Some (Some oid), clPositions = Some [],
      clMarket2 = Some price, clSaveExitOk = True, clDeleteLogicOk = True,
      clRecorder = quietRecorder\<rparr>"

definition firstOpen :: "(open_error + unit) \<times> DecisionAction \<times> AutoTrader" where
  "firstOpen = executeOpenLongWithRecord (beginCycle baseTrader) happyOpenEnv happyOpen
                 (newActionRecord happyOpen t0)"

definition afterFirstOpen :: AutoTrader where
  "afterFirstOpen = endCycle (snd (snd firstOpen)) t0 (fst (snd firstOpen))"

definition firstClose :: "(close_error + unit) \<times> DecisionAction \<times> AutoTrader" where
  "firstClose = executeCloseLongWithRecord (beginCycle afterFirstOpen) (filledClose 61000 111)
                  closeBtcLong (newActionRecord closeBtcLong t1)"

definition afterFirstClose :: AutoTrader where
  "afterFirstClose = endCycle (snd (snd firstClose)) t1 (fst (snd firstClose))"

definition secondOpen :: "(open_error + unit) \<times> DecisionAction \<times> AutoTrader" where
  "secondOpen = executeOpenLongWithRecord (beginCycle afterFirstClose) reopenEnv happyOpen
                  (newActionRecord happyOpen t2)"

definition afterSecondOpen :: AutoTrader where
  "afterSecondOpen = endCycle (snd (snd secondOpen)) t2 (fst (snd secondOpen))"

definition secondClose :: "(close_error + unit) \<times> DecisionAction \<times> AutoTrader" where
  "secondClose = executeCloseLongWithRecord (beginCycle afterSecondOpen) (filledClose 62000 131)
                   closeBtcLong (newActionRecord closeBtcLong t3)"
section \<open>Properties\<close>

subsection \<open>Shared facts\<close>

lemmas margin_constants =
  MaxMarginUsagePct_def MaxMarginUsagePctSingleSymbol_def MinReserveBalancePct_def
  MinSafeDistancePct_def MaintenanceMarginRate_def

lemmas duration_units = Second_def Minute_def Hour_def

text \<open>The recorder writes the trade table and the position-logic wrapper, nothing else.\<close>

lemma fromPosition_writes:
  "recordTradeHistoryFromPosition tr env side symbol a f r =
     tr\<lparr>positionLogicManager :=
          positionLogicManager (recordTradeHistoryFromPosition tr env side symbol a f r),
        trades := trades (recordTradeHistoryFromPosition tr env side symbol a f r)\<rparr>"
  by (simp add: recordTradeHistoryFromPosition_def split: prod.splits)

lemma recordTradeHistory_writes:
  "recordTradeHistory tr env side dec a f r =
     tr\<lparr>positionLogicManager := positionLogicManager (recordTradeHistory tr env side dec a f r),
        trades := trades (recordTradeHistory tr env side dec a f r)\<rparr>"
  unfolding recordTradeHistory_def
  by (auto simp add: Let_def fromPosition_writes [symmetric] split: option.splits prod.splits)

lemma fromPosition_closingPositions [simp]:
  "closingPositions (recordTradeHistoryFromPosition tr env side symbol a f r) = closingPositions tr"
  by (subst fromPosition_writes) simp

lemma fromPosition_forcedClosedPositions [simp]:
  "forcedClosedPositions (recordTradeHistoryFromPosition tr env side symbol a f r)
     = forcedClosedPositions tr"
  by (subst fromPosition_writes) simp

lemma recordTradeHistory_closingPositions [simp]:
  "closingPositions (recordTradeHistory tr env side dec a f r) = closingPositions tr"
  by (subst recordTradeHistory_writes) simp

text \<open>The trade table: inserts, updates and the key.\<close>

lemma LogTrade_cases:
  "snd (LogTrade db t) = db \<or> (\<not> insertConflict db t \<and> snd (LogTrade db t) = db @ [t])"
  by (simp add: LogTrade_def)

lemma no_conflict_fresh_key:
  "\<not> insertConflict db t \<Longrightarrow> (tSymbol t, OpenTime t) \<notin> set (map (\<lambda>r. (tSymbol r, OpenTime r)) db)"
  by (auto simp add: insertConflict_def sameKey_def filter_empty_conv)

lemma uniqueKeys_LogTrade: "uniqueKeys db \<Longrightarrow> uniqueKeys (snd (LogTrade db t))"
  using no_conflict_fresh_key [of db t]
  by (auto simp add: LogTrade_def uniqueKeys_def)

lemma uniqueKeys_CreateTrade: "uniqueKeys db \<Longrightarrow> uniqueKeys (snd (CreateTrade db t))"
  using no_conflict_fresh_key [of db t]
  by (auto simp add: CreateTrade_def uniqueKeys_def openSideOnly_def)

lemma applyUpdate_key:
  "tSymbol (applyUpdate t r) = tSymbol r \<and> OpenTime (applyUpdate t r) = OpenTime r"
  by (simp add: applyUpdate_def Let_def split: option.splits)

lemma uniqueKeys_UpdateTrade: "uniqueKeys db \<Longrightarrow> uniqueKeys (snd (UpdateTrade db t))"
proof -
  have "(\<lambda>r. (tSymbol r, OpenTime r)) \<circ> (\<lambda>r. if sameKey t r then applyUpdate t r else r)
          = (\<lambda>r. (tSymbol r, OpenTime r))"
    by (auto simp add: fun_eq_iff applyUpdate_key)
  then show "uniqueKeys db \<Longrightarrow> uniqueKeys (snd (UpdateTrade db t))"
    by (simp add: UpdateTrade_def uniqueKeys_def)
qed

lemma uniqueKeys_CreateOrUpdateTrade:
  "uniqueKeys db \<Longrightarrow> uniqueKeys (snd (CreateOrUpdateTrade db t))"
  by (simp add: CreateOrUpdateTrade_def uniqueKeys_UpdateTrade uniqueKeys_CreateTrade)

lemma built_close_time:
  "CloseTime (buildTradeRecord symbol side oa ca ocn ccn f fr r1 r2) = Some (Timestamp ca)"
  by (simp add: buildTradeRecord_def Let_def)

lemma built_pnl:
  "PnL (buildTradeRecord symbol side oa ca ocn ccn f fr r1 r2)
     = pnlFromFields (buildTradeRecord symbol side oa ca ocn ccn f fr r1 r2)
   \<and> PnLPct (buildTradeRecord symbol side oa ca ocn ccn f fr r1 r2)
     = pnlPctOfMargin (PnL (buildTradeRecord symbol side oa ca ocn ccn f fr r1 r2))
         (buildTradeRecord symbol side oa ca ocn ccn f fr r1 r2)"
  by (simp add: buildTradeRecord_def pnlFromFields_def pnlPctOfMargin_def marginFromFields_def Let_def)

text \<open>What the recorder does to the trade table: nothing, or one insert of a built record.\<close>

lemma fromPosition_trades:
  "trades (recordTradeHistoryFromPosition tr env side symbol a f fr) = trades tr
   \<or> (\<exists>oa. trades (recordTradeHistoryFromPosition tr env side symbol a f fr)
         = snd (LogTrade (trades tr)
                  (buildTradeRecord symbol side oa a 0 (callCount tr) f fr externalOpenReason [])))"
  by (auto simp add: recordTradeHistoryFromPosition_def split: prod.splits)

lemma recordTradeHistory_trades:
  "trades (recordTradeHistory tr env side dec a f fr) = trades tr
   \<or> (\<exists>oa ocn r1 r2. trades (recordTradeHistory tr env side dec a f fr)
         = snd (LogTrade (trades tr)
                  (buildTradeRecord (Symbol dec) side oa a ocn (callCount tr) f fr r1 r2)))"
  using fromPosition_trades [of tr env side "Symbol dec" a f fr]
  by (auto simp add: recordTradeHistory_def Let_def split: option.splits prod.splits)

lemma foldl_LogTrade_rows:
  "set (foldl (\<lambda>db t. snd (LogTrade db t)) db ts) \<subseteq> set db \<union> set ts"
proof (induction ts arbitrary: db)
  case Nil
  then show ?case by simp
next
  case (Cons t ts)
  have "set (snd (LogTrade db t)) \<subseteq> set db \<union> {t}"
    by (auto simp add: LogTrade_def)
  with Cons [of "snd (LogTrade db t)"] show ?case by auto
qed

lemma sync_pnl:
  "PnL (syncRecord tr agg opn) = totalRealizedPnl agg
   \<and> CloseOrderID (syncRecord tr agg opn) = orderId agg
   \<and> CloseTime (syncRecord tr agg opn) \<noteq> None
   \<and> PnLPct (syncRecord tr agg opn) = pnlPctOfMargin (PnL (syncRecord tr agg opn)) (syncRecord tr agg opn)"
  by (simp add: syncRecord_def pnlPctOfMargin_def marginFromFields_def Let_def split: prod.splits)

lemma missing_rows:
  "r \<in> set (missingTrades tr env fills om) \<Longrightarrow> \<exists>agg opn. r = syncRecord tr agg opn"
  by (auto simp add: missingTrades_def Let_def simp del: split_paired_Ex split: if_splits)

lemma sync_rows:
  "r \<in> set (trades (snd (SyncManualTradesFromExchange tr senv))) \<Longrightarrow> r \<notin> set (trades tr)
   \<Longrightarrow> \<exists>agg opn. r = syncRecord tr agg opn"
  using foldl_LogTrade_rows missing_rows
  by (fastforce simp add: SyncManualTradesFromExchange_def Let_def split: option.splits if_splits)

subsection \<open>C3: the liquidation-distance check at leverage 10\<close>

text \<open>
  C3, as stated, fails: for the open of scenario 2 (leverage 10, price 60000, stop
  59900) the distance of the estimated liquidation price from the price is 11 per cent,
  not below the minimum of 3, and the check accepts the open.
\<close>

theorem C3_counterexample:
  "priceDistancePct tightStopOpen 60000 = 11
   \<and> \<not> priceDistancePct tightStopOpen 60000 < MinSafeDistancePct
   \<and> checkMarginAndBalanceSafety freshAccount tightStopOpen (Some 60000) = Inr ()"
  by (simp add: checkMarginAndBalanceSafety_def tightStopOpen_def mkDecision_def
      freshAccount_def isSingleSymbol_def priceDistancePct_def estimatedLiquidationPrice_def
      marginRate_def margin_constants Let_def)

text \<open>
  C3, amended: for an \<^verbatim>\<open>open_long\<close> with leverage 10 at price 60000 and stop 59900 the
  estimated liquidation price is 53400, at a distance of 11 per cent; the check
  rejects neither for the liquidation distance nor for the stop, so its verdict is
  acceptance or one of the two rejections for margin usage and reserve balance.
\<close>

theorem C3_leverage10_not_rejected_for_distance:
  assumes "Action dec = ''open_long''" and "Leverage dec = 10" and "StopLoss dec = 59900"
  shows "estimatedLiquidationPrice dec 60000 = 53400
         \<and> priceDistancePct dec 60000 = 11
         \<and> checkMarginAndBalanceSafety ctx dec (Some 60000)
             \<in> {Inr (), Inl MarginUsageExceeded, Inl BalanceInsufficient}"
  using assms
  by (simp add: checkMarginAndBalanceSafety_def priceDistancePct_def
      estimatedLiquidationPrice_def marginRate_def margin_constants Let_def)

theorem C3_leverage10_witness:
  "Action tightStopOpen = ''open_long'' \<and> Leverage tightStopOpen = 10
   \<and> StopLoss tightStopOpen = 59900
   \<and> estimatedLiquidationPrice tightStopOpen 60000 = 53400
   \<and> priceDistancePct tightStopOpen 60000 = 11
   \<and> checkMarginAndBalanceSafety freshAccount tightStopOpen (Some 60000)
        \<in> {Inr (), Inl MarginUsageExceeded, Inl BalanceInsufficient}"
proof -
  have a: "Action tightStopOpen = ''open_long''" and l: "Leverage tightStopOpen = 10"
    and s: "StopLoss tightStopOpen = 59900"
    by (simp_all add: tightStopOpen_def mkDecision_def)
  from C3_leverage10_not_rejected_for_distance [OF a l s, of freshAccount] a l s
  show ?thesis by simp
qed

subsection \<open>C7: the last update of a stop can be dropped\<close>

text \<open>
  C7: the pipeline sorts before it removes duplicates, and the sort does not keep the
  order of decisions of equal priority. For two \<^verbatim>\<open>update_sl\<close> of one symbol followed
  by a close, the sort moves the close to the front by exchanging it with the first
  update, which puts the first update behind the second; the de-duplication then keeps
  the first update of the input and drops the last.
\<close>

theorem C7_pipeline_keeps_first_update:
  "decisionPipeline [firstUpdate, lastUpdate, closeOther] = [closeOther, firstUpdate]"
  by (simp add: decisionPipeline_def deduplicateDecisions_def sortDecisionsByPriority_def
      sortInner_def swapIfGreater_def getActionPriority_def firstUpdate_def lastUpdate_def
      closeOther_def mkDecision_def dedupActions_def dedupKey_def lookupIndex_def upt_rec)

subsection \<open>C4: the boundary of the daily-loss halt\<close>

text \<open>
  C4, as stated, fails at its own example: with a daily start equity of 10000 and a
  threshold of 5 per cent (and no other limit configured), an equity of 9500 is a loss
  of exactly 5 per cent, which is not below \<open>-5\<close>, so there is no halt; an equity of
  9499.99 is a loss of 5.0001 per cent and halts.
\<close>

theorem C4_counterexample:
  "fst (checkAndExecuteForcedStopLoss baseTrader (accountWithEquity 9500) Hour
          (\<lambda>i. failingClose Hour)) = None
   \<and> fst (checkAndExecuteForcedStopLoss baseTrader (accountWithEquity (949999 / 100)) Hour
            (\<lambda>i. failingClose Hour)) = Some DailyLossHalt"
  by (simp add: checkAndExecuteForcedStopLoss_def updateRiskFigures_def drawdownBreached_def
      dailyLossBreached_def baseTrader_def baseConfig_def accountWithEquity_def duration_units
      forceCloseAllPositions_def Let_def)

text \<open>
  C4, amended: within 24 hours of the last daily reset the check ends in the daily-loss
  halt exactly when the drawdown halt did not trigger, the configured maximum daily
  loss and the daily start equity are positive, and
  \<open>((equity - daily_start_equity) / daily_start_equity) * 100 < - max_daily_loss_pct\<close>;
  with a daily start equity of 10000, a threshold of 5 and no drawdown limit, it halts
  exactly for an equity below 9500 (9500 itself does not halt, 9499.99 does).
\<close>

theorem C4_daily_loss_halt_condition:
  assumes "now - lastResetTime tr < 24 * Hour"
  shows "((fst (checkAndExecuteForcedStopLoss tr ctx now envs) = Some DailyLossHalt)
          = (\<not> drawdownBreached (updateRiskFigures tr ctx now) ctx
             \<and> MaxDailyLoss (config tr) > 0 \<and> dailyStartEquity tr > 0
             \<and> ((TotalEquity (Account ctx) - dailyStartEquity tr) / dailyStartEquity tr) * 100
                 < - MaxDailyLoss (config tr)))
         \<and> (dailyStartEquity tr = 10000 \<and> MaxDailyLoss (config tr) = 5
              \<and> MaxDrawdown (config tr) = 0
            \<longrightarrow> (fst (checkAndExecuteForcedStopLoss tr ctx now envs) = Some DailyLossHalt)
                = (TotalEquity (Account ctx) < 9500))"
  using assms
  by (auto simp add: checkAndExecuteForcedStopLoss_def updateRiskFigures_def drawdownBreached_def
      dailyLossBreached_def Let_def split: prod.splits)

theorem C4_daily_loss_halt_witness:
  "Hour - lastResetTime baseTrader < 24 * Hour
   \<and> dailyStartEquity baseTrader = 10000 \<and> MaxDailyLoss (config baseTrader) = 5
   \<and> MaxDrawdown (config baseTrader) = 0
   \<and> TotalEquity (Account (accountWithEquity (949999 / 100))) < 9500
   \<and> fst (checkAndExecuteForcedStopLoss baseTrader (accountWithEquity (949999 / 100)) Hour
            (\<lambda>i. failingClose Hour)) = Some DailyLossHalt"
proof -
  have h: "Hour - lastResetTime baseTrader < 24 * Hour"
    by (simp add: baseTrader_def duration_units)
  from C4_daily_loss_halt_condition [OF h, of "accountWithEquity (949999 / 100)"
      "\<lambda>i. failingClose Hour"] h
  show ?thesis
    by (simp add: baseTrader_def baseConfig_def accountWithEquity_def)
qed

subsection \<open>C5: the peak equity is reset when the context cannot be built\<close>

text \<open>
  C5: a trader whose peak equity has risen to 12000 over an initial balance of 10000
  runs a cycle more than 24 hours after the last daily reset, and building the trading
  context fails. The fallback reset of \<^verbatim>\<open>runCycle\<close> assigns the initial balance to the
  peak equity: it falls to 10000.
\<close>

theorem C5_peak_reset_on_context_failure:
  "peakEquity (baseTrader\<lparr>peakEquity := 12000\<rparr>) = 12000
   \<and> peakEquity (snd (runCycleToForcedStopLoss (baseTrader\<lparr>peakEquity := 12000\<rparr>)
        \<lparr>cyNow = 25 * Hour, cyContext = None, cySync = noSync,
         cyForceClose = (\<lambda>i. failingClose (25 * Hour))\<rparr>)) = 10000"
  by (simp add: runCycleToForcedStopLoss_def fallbackReset_def baseTrader_def duration_units Let_def)

subsection \<open>C10: a stop-loss percentage of zero means ten\<close>



subsection \<open>C9: the lock-table entry after a close\<close>

text \<open>
  C9, as stated, fails on the force-close path: a force-close whose order the exchange
  rejects returns the error and the lock table no longer holds the entry of the
  position.
\<close>

theorem C9_counterexample:
  "fst (forceClosePosition baseTrader (failingClose Hour) ''BTCUSDT'' ''long'' stopLossReason)
     = Some OrderFailed
   \<and> ''BTCUSDT_long'' \<notin> closingPositions
         (snd (snd (forceClosePosition baseTrader (failingClose Hour) ''BTCUSDT'' ''long''
                      stopLossReason)))"
  by (simp add: forceClosePosition_def forceCloseLocked_def checkForcedMark_def
      getOrCreateClosingLock_def cleanupClosingLock_def baseTrader_def failingClose_def
      posKeyOf_def Let_def)

text \<open>
  C9, amended. On the AI-driven close paths the entry of \<open>(symbol, side)\<close> is deleted
  when the close succeeds and is in the table after a close that fails for a position
  not marked in the forced-close registry. On the force-close path (watchdog and
  account-level halt) the entry is deleted at every return that follows the first
  check of the registry, whether the close succeeded or failed; a force-close whose
  order fails leaves its time in the forced-close registry instead.
\<close>

theorem C9_lock_table_entry:
  "(case executeCloseWithRecord side tr cenv dec a of
      (r, a', tr') \<Rightarrow>
        (r = Inr () \<longrightarrow> closingPositions tr' = closingPositions tr - {posKeyOf (Symbol dec) side})
        \<and> (r \<noteq> Inr () \<and> forcedClosedPositions tr (posKeyOf (Symbol dec) side) = None
             \<longrightarrow> closingPositions tr' = insert (posKeyOf (Symbol dec) side) (closingPositions tr)))
   \<and> (case forceClosePosition tr fenv symbol sd reason of
        (err, a', tr') \<Rightarrow>
          (checkForcedMark tr (posKeyOf symbol sd) (fcNow fenv) \<noteq> Inl AlreadyForceClosed
             \<longrightarrow> closingPositions tr' = closingPositions tr - {posKeyOf symbol sd})
          \<and> (err = Some OrderFailed
               \<longrightarrow> forcedClosedPositions tr' (posKeyOf symbol sd) = Some (fcNow fenv)))"
proof -
  have ai: "case executeCloseWithRecord side tr cenv dec a of
      (r, a', tr') \<Rightarrow>
        (r = Inr () \<longrightarrow> closingPositions tr' = closingPositions tr - {posKeyOf (Symbol dec) side})
        \<and> (r \<noteq> Inr () \<and> forcedClosedPositions tr (posKeyOf (Symbol dec) side) = None
             \<longrightarrow> closingPositions tr' = insert (posKeyOf (Symbol dec) side) (closingPositions tr))"
    by (auto simp add: executeCloseWithRecord_def getOrCreateClosingLock_def
        cleanupClosingLock_def Let_def split: option.splits)
  have locked: "closingPositions (snd (snd (forceCloseLocked t fenv symbol sd reason)))
                  = closingPositions t" for t
    by (auto simp add: forceCloseLocked_def checkForcedMark_def recordTradeHistoryFromAction_def
        Let_def split: option.splits sum.splits if_splits)
  have failed: "fst (forceCloseLocked t fenv symbol sd reason) = Some OrderFailed
      \<longrightarrow> forcedClosedPositions (snd (snd (forceCloseLocked t fenv symbol sd reason)))
            (posKeyOf symbol sd) = Some (fcNow fenv)" for t
    by (auto simp add: forceCloseLocked_def checkForcedMark_def Let_def
        split: option.splits sum.splits if_splits)
  have fc: "case forceClosePosition tr fenv symbol sd reason of
        (err, a', tr') \<Rightarrow>
          (checkForcedMark tr (posKeyOf symbol sd) (fcNow fenv) \<noteq> Inl AlreadyForceClosed
             \<longrightarrow> closingPositions tr' = closingPositions tr - {posKeyOf symbol sd})
          \<and> (err = Some OrderFailed
               \<longrightarrow> forcedClosedPositions tr' (posKeyOf symbol sd) = Some (fcNow fenv))"
  proof (cases "checkForcedMark tr (posKeyOf symbol sd) (fcNow fenv)")
    case (Inl e)
    then show ?thesis
      by (auto simp add: forceClosePosition_def checkForcedMark_def Let_def
          split: option.splits if_splits)
  next
    case (Inr tr1)
    have c1: "closingPositions tr1 = closingPositions tr"
      using Inr by (auto simp add: checkForcedMark_def split: option.splits if_splits)
    obtain err a' t2 where r: "forceCloseLocked (getOrCreateClosingLock tr1 (posKeyOf symbol sd))
                                 fenv symbol sd reason = (err, a', t2)"
      by (cases "forceCloseLocked (getOrCreateClosingLock tr1 (posKeyOf symbol sd)) fenv symbol sd
                   reason")
    have c2: "closingPositions t2 = insert (posKeyOf symbol sd) (closingPositions tr)"
      using locked [of "getOrCreateClosingLock tr1 (posKeyOf symbol sd)"] r c1
      by (simp add: getOrCreateClosingLock_def)
    have m: "err = Some OrderFailed
             \<longrightarrow> forcedClosedPositions t2 (posKeyOf symbol sd) = Some (fcNow fenv)"
      using failed [of "getOrCreateClosingLock tr1 (posKeyOf symbol sd)"] r by simp
    show ?thesis
      using Inr r c2 m
      by (simp add: forceClosePosition_def cleanupClosingLock_def Let_def)
  qed
  from ai fc show ?thesis by simp
qed

theorem C9_lock_table_entry_witness:
  "fst (executeCloseWithRecord ''long'' baseTrader rejectedClose closeBtcLong zeroAction) \<noteq> Inr ()
   \<and> forcedClosedPositions baseTrader (posKeyOf (Symbol closeBtcLong) ''long'') = None
   \<and> closingPositions (snd (snd (executeCloseWithRecord ''long'' baseTrader rejectedClose
                                    closeBtcLong zeroAction)))
       = {posKeyOf (Symbol closeBtcLong) ''long''}
   \<and> checkForcedMark baseTrader (posKeyOf ''BTCUSDT'' ''long'') (fcNow (failingClose Hour))
       \<noteq> Inl AlreadyForceClosed
   \<and> fst (forceClosePosition baseTrader (failingClose Hour) ''BTCUSDT'' ''long'' stopLossReason)
       = Some OrderFailed
   \<and> closingPositions (snd (snd (forceClosePosition baseTrader (failingClose Hour) ''BTCUSDT''
                                    ''long'' stopLossReason))) = {}
   \<and> forcedClosedPositions (snd (snd (forceClosePosition baseTrader (failingClose Hour)
                                         ''BTCUSDT'' ''long'' stopLossReason)))
        (posKeyOf ''BTCUSDT'' ''long'') = Some Hour"
proof -
  have r1: "fst (executeCloseWithRecord ''long'' baseTrader rejectedClose closeBtcLong zeroAction)
              = Inl OrderFailed"
    by (simp add: executeCloseWithRecord_def rejectedClose_def baseTrader_def
        getOrCreateClosingLock_def Let_def)
  have f: "forcedClosedPositions baseTrader (posKeyOf (Symbol closeBtcLong) ''long'') = None"
    by (simp add: baseTrader_def)
  have c: "checkForcedMark baseTrader (posKeyOf ''BTCUSDT'' ''long'') (fcNow (failingClose Hour))
             \<noteq> Inl AlreadyForceClosed"
    by (simp add: checkForcedMark_def baseTrader_def)
  have e: "fst (forceClosePosition baseTrader (failingClose Hour) ''BTCUSDT'' ''long''
                  stopLossReason) = Some OrderFailed"
    by (simp add: forceClosePosition_def forceCloseLocked_def checkForcedMark_def
        getOrCreateClosingLock_def baseTrader_def failingClose_def Let_def)
  have b: "closingPositions baseTrader = {}"
    by (simp add: baseTrader_def)
  from C9_lock_table_entry [where side = "''long''" and tr = baseTrader and cenv = rejectedClose
      and dec = closeBtcLong and a = zeroAction and fenv = "failingClose Hour"
      and symbol = "''BTCUSDT''" and sd = "''long''" and reason = stopLossReason] r1 f c e b
  show ?thesis
    by (auto simp add: failingClose_def split: prod.splits)
qed

text \<open>
  The cool-down: while the mark of a position in the forced-close registry is not older
  than the retry timeout, a force-close of that position is refused, and an AI-driven
  close of it is refused whatever the age of the mark.
\<close>

lemma registry_mark_blocks_retry:
  assumes "forcedClosedPositions tr (posKeyOf symbol side) = Some m"
  shows "fcNow env - m \<le> PositionStopLossRetryTimeout \<Longrightarrow>
           fst (forceClosePosition tr env symbol side reason) = Some AlreadyForceClosed"
    and "Symbol dec = symbol \<Longrightarrow>
           fst (executeCloseWithRecord side tr cenv dec a) = Inl AlreadyForceClosed"
  using assms
  by (simp_all add: forceClosePosition_def checkForcedMark_def executeCloseWithRecord_def Let_def)

subsection \<open>C1: the recorder inserts, it does not look up and update\<close>

text \<open>
  What the recorder does to the trade table when it handles a close: it leaves the
  table as it is, or appends one complete record (close time set) with \<^verbatim>\<open>LogTrade\<close>,
  which the table accepts only if neither the trade id nor \<open>(symbol, open_time)\<close> is
  taken; it never reads the table and never updates a row. The recorder and the four
  write operations of the table keep \<open>(symbol, open_time)\<close> unique.
\<close>

lemma recorder_inserts_only:
  "(trades (recordTradeHistory tr env side dec a f fr) = trades tr
     \<or> (\<exists>t. \<not> insertConflict (trades tr) t \<and> CloseTime t = Some (Timestamp a)
            \<and> trades (recordTradeHistory tr env side dec a f fr) = trades tr @ [t]))
   \<and> (trades (recordTradeHistoryFromPosition tr env side symbol a f fr) = trades tr
     \<or> (\<exists>t. \<not> insertConflict (trades tr) t \<and> CloseTime t = Some (Timestamp a)
            \<and> trades (recordTradeHistoryFromPosition tr env side symbol a f fr) = trades tr @ [t]))
   \<and> (uniqueKeys (trades tr) \<longrightarrow>
         uniqueKeys (trades (recordTradeHistory tr env side dec a f fr))
         \<and> uniqueKeys (trades (recordTradeHistoryFromPosition tr env side symbol a f fr)))
   \<and> (uniqueKeys db \<longrightarrow>
         uniqueKeys (snd (LogTrade db row)) \<and> uniqueKeys (snd (CreateTrade db row))
         \<and> uniqueKeys (snd (UpdateTrade db row)) \<and> uniqueKeys (snd (CreateOrUpdateTrade db row)))"
proof -
  have p1: "trades (recordTradeHistory tr env side dec a f fr) = trades tr
     \<or> (\<exists>t. \<not> insertConflict (trades tr) t \<and> CloseTime t = Some (Timestamp a)
            \<and> trades (recordTradeHistory tr env side dec a f fr) = trades tr @ [t])"
    using recordTradeHistory_trades [of tr env side dec a f fr] LogTrade_cases built_close_time
    by metis
  have p2: "trades (recordTradeHistoryFromPosition tr env side symbol a f fr) = trades tr
     \<or> (\<exists>t. \<not> insertConflict (trades tr) t \<and> CloseTime t = Some (Timestamp a)
            \<and> trades (recordTradeHistoryFromPosition tr env side symbol a f fr) = trades tr @ [t])"
    using fromPosition_trades [of tr env side symbol a f fr] LogTrade_cases built_close_time
    by metis
  have p3: "uniqueKeys (trades tr) \<longrightarrow>
         uniqueKeys (trades (recordTradeHistory tr env side dec a f fr))
         \<and> uniqueKeys (trades (recordTradeHistoryFromPosition tr env side symbol a f fr))"
    using recordTradeHistory_trades [of tr env side dec a f fr]
      fromPosition_trades [of tr env side symbol a f fr] uniqueKeys_LogTrade
    by metis
  show ?thesis
    using p1 p2 p3 uniqueKeys_LogTrade uniqueKeys_CreateTrade uniqueKeys_UpdateTrade
      uniqueKeys_CreateOrUpdateTrade by blast
qed


lemma recorder_inserts_only_example:
  "uniqueKeys (trades traderWithoutRow)
   \<and> length (trades (recordTradeHistory traderWithoutRow quietRecorder ''long'' closeBtcLong
                       closingLong False [])) = 1
   \<and> uniqueKeys (trades (recordTradeHistory traderWithoutRow quietRecorder ''long'' closeBtcLong
                           closingLong False []))
   \<and> uniqueKeys (snd (CreateTrade (trades traderWithoutRow)
         (buildTradeRecord ''BTCUSDT'' ''long'' openedLong closingLong 1 2 False [] ''r'' ''r'')))"
proof -
  have u: "uniqueKeys (trades traderWithoutRow)"
    by (simp add: uniqueKeys_def traderWithoutRow_def baseTrader_def)
  have n: "trades (recordTradeHistory traderWithoutRow quietRecorder ''long'' closeBtcLong
                     closingLong False []) \<noteq> trades traderWithoutRow"
    by (simp add: recordTradeHistory_def quietRecorder_def traderWithoutRow_def baseTrader_def
        GetLatestRecords_def openCycleRecord_def hasBeenClosed_def parsedActions_def
        closedBefore_def openCandidate_def actionSideOf_def openedLong_def closingLong_def
        closeBtcLong_def mkDecision_def t0_def t1_def duration_units LogTrade_def
        insertConflict_def Let_def)
  have e: "trades traderWithoutRow = []"
    by (simp add: traderWithoutRow_def baseTrader_def)
  from recorder_inserts_only [where tr = traderWithoutRow and env = quietRecorder
      and side = "''long''" and dec = closeBtcLong and a = closingLong and f = False
      and fr = "[]" and symbol = "''BTCUSDT''" and db = "trades traderWithoutRow"
      and row = "buildTradeRecord ''BTCUSDT'' ''long'' openedLong closingLong 1 2 False [] ''r'' ''r''"] u n e
  show ?thesis by auto
qed


text \<open>
  The two round trips, cycle by cycle. After the first close the table holds one row,
  the trade opened at \<open>t0\<close> and closed at \<open>t1\<close> at 61000; the second open leaves the
  table as it is.
\<close>

lemmas round_trip_open =
  executeOpenLongWithRecord_def executeOpenWithRecord_def happyOpenEnv_def reopenEnv_def
  happyOpen_def mkDecision_def baseTrader_def emptyWrapper_def hasPosition_def
  checkMarginAndBalanceSafety_def freshAccount_def isSingleSymbol_def priceDistancePct_def
  estimatedLiquidationPrice_def marginRate_def margin_constants lotRound_def
  MinPositionSizeUSD_def recordOpenedPosition_def SaveFirstSeenTime_def
  SaveStopLossAndTakeProfit_def storageSaveStopLossAndTakeProfit_def storageGetLogic_def
  SaveEntryLogic_def SaveExitLogic_def upsertRow_def updateCache_def emptyLogic_def
  posKeyOf_def Let_def newActionRecord_def beginCycle_def endCycle_def

lemmas round_trip_close =
  executeCloseLongWithRecord_def executeCloseWithRecord_def filledClose_def closeBtcLong_def
  getOrCreateClosingLock_def cleanupClosingLock_def stillOpen_def DeleteLogic_def
  recordTradeHistory_def quietRecorder_def GetLatestRecords_def hasBeenClosed_def
  parsedActions_def closedBefore_def openCandidate_def actionSideOf_def t0_def t1_def t2_def
  t3_def duration_units LogTrade_def insertConflict_def sameKey_def buildTradeRecord_def

lemma first_open: "fst firstOpen = Inr () \<and> trades afterFirstOpen = []"
  by (simp add: firstOpen_def afterFirstOpen_def round_trip_open)

lemma first_close:
  "fst firstClose = Inr ()
   \<and> map OpenTime (trades afterFirstClose) = [t0]
   \<and> map OpenPrice (trades afterFirstClose) = [60000]
   \<and> map CloseTime (trades afterFirstClose) = [Some t1]
   \<and> map ClosePrice (trades afterFirstClose) = [61000]"
  by (simp add: firstClose_def afterFirstClose_def firstOpen_def afterFirstOpen_def
      round_trip_open round_trip_close)

lemma second_open: "fst secondOpen = Inr () \<and> trades afterSecondOpen = trades afterFirstClose"
  by (simp add: secondOpen_def afterSecondOpen_def firstClose_def afterFirstClose_def
      firstOpen_def afterFirstOpen_def round_trip_open round_trip_close)

lemma second_close:
  "fst secondClose = Inr ()
   \<and> trades (snd (snd secondClose)) = trades afterSecondOpen
   \<and> map_option (Timestamp \<circ> fst)
        (findOpenAction (GetLatestRecords (decisionTable (beginCycle afterSecondOpen)) 1000)
           (length (GetLatestRecords (decisionTable (beginCycle afterSecondOpen)) 1000))
           ''BTCUSDT'' ''long'' t3) = Some t0
   \<and> map_option CloseTime (GetOpenTradeByTime (trades afterSecondOpen) ''BTCUSDT'' t0)
       = Some (Some t1)
   \<and> GetOpenTradeByTime (trades (snd (snd secondClose))) ''BTCUSDT'' t2 = None"
  by (simp add: secondClose_def secondOpen_def afterSecondOpen_def firstClose_def
      afterFirstClose_def firstOpen_def afterFirstOpen_def round_trip_open round_trip_close
      GetOpenTradeByTime_def numeral_3_eq_3)

text \<open>
  C1: a long is opened, closed, opened again and closed again, each time by the
  executor of the cycle, and all four calls succeed. When the recorder handles the
  second close the open it takes from the decision records is the one of \<open>t0\<close>, and
  the range query of the storage for \<open>(BTCUSDT, t0)\<close> finds a row, the one written at
  the first close. The recorder does not finalize that row in place: the table after
  the second close is the table before it (the row still closed at \<open>t1\<close> at 61000),
  because the insert of the new record is rejected; and no row exists for the open of
  \<open>t2\<close>.
\<close>

theorem C1_found_row_not_updated:
  "fst firstOpen = Inr () \<and> fst firstClose = Inr ()
   \<and> fst secondOpen = Inr () \<and> fst secondClose = Inr ()
   \<and> map_option (Timestamp \<circ> fst)
        (findOpenAction (GetLatestRecords (decisionTable (beginCycle afterSecondOpen)) 1000)
           (length (GetLatestRecords (decisionTable (beginCycle afterSecondOpen)) 1000))
           ''BTCUSDT'' ''long'' t3) = Some t0
   \<and> map_option CloseTime (GetOpenTradeByTime (trades afterSecondOpen) ''BTCUSDT'' t0)
       = Some (Some t1)
   \<and> trades (snd (snd secondClose)) = trades afterSecondOpen
   \<and> map OpenTime (trades (snd (snd secondClose))) = [t0]
   \<and> map CloseTime (trades (snd (snd secondClose))) = [Some t1]
   \<and> map ClosePrice (trades (snd (snd secondClose))) = [61000]
   \<and> GetOpenTradeByTime (trades (snd (snd secondClose))) ''BTCUSDT'' t2 = None"
proof -
  have e: "trades (snd (snd secondClose)) = trades afterSecondOpen"
    using second_close by blast
  have f: "trades afterSecondOpen = trades afterFirstClose"
    using second_open by blast
  have m: "map OpenTime (trades (snd (snd secondClose))) = [t0]"
    "map CloseTime (trades (snd (snd secondClose))) = [Some t1]"
    "map ClosePrice (trades (snd (snd secondClose))) = [61000]"
    using first_close by (simp_all only: e f)
  have r: "fst firstOpen = Inr ()" "fst firstClose = Inr ()" "fst secondOpen = Inr ()"
    "fst secondClose = Inr ()"
    using first_open first_close second_open second_close by blast+
  have q: "map_option (Timestamp \<circ> fst)
        (findOpenAction (GetLatestRecords (decisionTable (beginCycle afterSecondOpen)) 1000)
           (length (GetLatestRecords (decisionTable (beginCycle afterSecondOpen)) 1000))
           ''BTCUSDT'' ''long'' t3) = Some t0"
    "map_option CloseTime (GetOpenTradeByTime (trades afterSecondOpen) ''BTCUSDT'' t0)
       = Some (Some t1)"
    "GetOpenTradeByTime (trades (snd (snd secondClose))) ''BTCUSDT'' t2 = None"
    using second_close by blast+
  from r q e m show ?thesis by (intro conjI)
qed

subsection \<open>C8: PnL of closed rows\<close>

text \<open>The reconciler on the fills of scenario 6: one row, with the PnL of the venue.\<close>

lemma manual_close_row:
  "(case trades (snd (SyncManualTradesFromExchange baseTrader manualCloseSync)) of
      [r] \<Rightarrow> PnL r = 1234 / 100 | _ \<Rightarrow> False)"
  by (simp add: SyncManualTradesFromExchange_def manualCloseSync_def manualCloseFills_def
      mkFill_def baseTrader_def baseConfig_def GetLatestTrades_def aggregateFill_def orderIdOf_def
      truncInt_def fillTimeMs_def qtyOf_def parsedOrZero_def toTime_def tradeSideOf_def
      ToUpper_def upperChar_def accumulate_def missingTrades_def openSideOf_def bestOpenTrade_def
      isOpenFillFor_def pickLater_def fillTime_def leverageFromPositions_def leverageFromLocal_def
      configuredLeverage_def bestLocalTrade_def syncRecord_def LogTrade_def insertConflict_def
      Let_def duration_units)

text \<open>
  C8, as stated, fails for the rows of the reconciler: for the fills of scenario 6 it
  inserts one closed long row with open price 1950, quantity 3 and close price
  6020/3 (2006.67), whose PnL is the 12.34 reported by the venue, while the PnL
  recomputed from the fields of the row is 170.
\<close>

theorem C8_counterexample:
  "(case trades (snd (SyncManualTradesFromExchange baseTrader manualCloseSync)) of
      [r] \<Rightarrow> CloseTime r \<noteq> None \<and> Side r = ''long'' \<and> OpenPrice r = 1950 \<and> OpenQuantity r = 3
              \<and> ClosePrice r = 6020 / 3 \<and> OpenLeverage r = 10 \<and> PnL r = 1234 / 100
              \<and> pnlFromFields r = 170
    | _ \<Rightarrow> False)"
  by (simp add: SyncManualTradesFromExchange_def manualCloseSync_def manualCloseFills_def
      mkFill_def baseTrader_def baseConfig_def GetLatestTrades_def aggregateFill_def orderIdOf_def
      truncInt_def fillTimeMs_def qtyOf_def parsedOrZero_def toTime_def tradeSideOf_def
      ToUpper_def upperChar_def accumulate_def missingTrades_def openSideOf_def bestOpenTrade_def
      isOpenFillFor_def pickLater_def fillTime_def leverageFromPositions_def leverageFromLocal_def
      configuredLeverage_def bestLocalTrade_def syncRecord_def LogTrade_def insertConflict_def
      pnlFromFields_def Let_def duration_units)

text \<open>
  C8, amended. Every row the recorder adds on a close path (AI-driven close or
  force-close) has its close time set, a PnL equal to the open quantity times the price
  move (mirrored for a side other than long) and a PnL per cent equal to that PnL over
  the margin \<open>open_quantity * open_price / open_leverage\<close> times 100 when the margin
  is positive, and \<open>0\<close> otherwise. Every row the reconciler adds has its close time
  set and the same PnL per cent of its own PnL, but its PnL is the realized PnL that
  the venue reported, summed over the fills of the close order; it is not recomputed
  from the prices.
\<close>

theorem C8_pnl_of_rows:
  "(\<forall>r \<in> set (trades (recordTradeHistory tr env side dec a f fr)) - set (trades tr).
       CloseTime r \<noteq> None \<and> PnL r = pnlFromFields r \<and> PnLPct r = pnlPctOfMargin (PnL r) r)
   \<and> (\<forall>r \<in> set (trades (recordTradeHistoryFromPosition tr env side symbol a f fr)) - set (trades tr).
       CloseTime r \<noteq> None \<and> PnL r = pnlFromFields r \<and> PnLPct r = pnlPctOfMargin (PnL r) r)
   \<and> (\<forall>r \<in> set (trades (snd (SyncManualTradesFromExchange tr senv))) - set (trades tr).
       CloseTime r \<noteq> None \<and> PnLPct r = pnlPctOfMargin (PnL r) r
       \<and> (\<exists>agg opn. r = syncRecord tr agg opn \<and> PnL r = totalRealizedPnl agg
                      \<and> CloseOrderID r = orderId agg))"
proof -
  have q1: "\<forall>r \<in> set (trades (recordTradeHistory tr env side dec a f fr)) - set (trades tr).
       CloseTime r \<noteq> None \<and> PnL r = pnlFromFields r \<and> PnLPct r = pnlPctOfMargin (PnL r) r"
  proof
    fix r assume r: "r \<in> set (trades (recordTradeHistory tr env side dec a f fr)) - set (trades tr)"
    from recordTradeHistory_trades [of tr env side dec a f fr] r
    obtain oa ocn r1 r2 where
      "r \<in> set (snd (LogTrade (trades tr)
                  (buildTradeRecord (Symbol dec) side oa a ocn (callCount tr) f fr r1 r2)))"
      by auto
    with r have "r = buildTradeRecord (Symbol dec) side oa a ocn (callCount tr) f fr r1 r2"
      by (auto simp add: LogTrade_def split: if_splits)
    then show "CloseTime r \<noteq> None \<and> PnL r = pnlFromFields r \<and> PnLPct r = pnlPctOfMargin (PnL r) r"
      using built_pnl built_close_time by simp
  qed
  have q2: "\<forall>r \<in> set (trades (recordTradeHistoryFromPosition tr env side symbol a f fr)) - set (trades tr).
       CloseTime r \<noteq> None \<and> PnL r = pnlFromFields r \<and> PnLPct r = pnlPctOfMargin (PnL r) r"
  proof
    fix r assume r: "r \<in> set (trades (recordTradeHistoryFromPosition tr env side symbol a f fr)) - set (trades tr)"
    from fromPosition_trades [of tr env side symbol a f fr] r
    obtain oa where
      "r \<in> set (snd (LogTrade (trades tr)
                  (buildTradeRecord symbol side oa a 0 (callCount tr) f fr externalOpenReason [])))"
      by auto
    with r have "r = buildTradeRecord symbol side oa a 0 (callCount tr) f fr externalOpenReason []"
      by (auto simp add: LogTrade_def split: if_splits)
    then show "CloseTime r \<noteq> None \<and> PnL r = pnlFromFields r \<and> PnLPct r = pnlPctOfMargin (PnL r) r"
      using built_pnl built_close_time by simp
  qed
  have q3: "\<forall>r \<in> set (trades (snd (SyncManualTradesFromExchange tr senv))) - set (trades tr).
       CloseTime r \<noteq> None \<and> PnLPct r = pnlPctOfMargin (PnL r) r
       \<and> (\<exists>agg opn. r = syncRecord tr agg opn \<and> PnL r = totalRealizedPnl agg
                      \<and> CloseOrderID r = orderId agg)"
  proof
    fix r assume "r \<in> set (trades (snd (SyncManualTradesFromExchange tr senv))) - set (trades tr)"
    then obtain agg opn where "r = syncRecord tr agg opn"
      using sync_rows by blast
    then show "CloseTime r \<noteq> None \<and> PnLPct r = pnlPctOfMargin (PnL r) r
       \<and> (\<exists>agg opn. r = syncRecord tr agg opn \<and> PnL r = totalRealizedPnl agg
                      \<and> CloseOrderID r = orderId agg)"
      using sync_pnl by blast
  qed
  from q1 q2 q3 show ?thesis by blast
qed


theorem C8_pnl_of_rows_witness:
  "(\<exists>r. trades (recordTradeHistory traderWithoutRow quietRecorder ''long'' closeBtcLong
                  closingLong False []) = [r]
        \<and> r \<in> set (trades (recordTradeHistory traderWithoutRow quietRecorder ''long'' closeBtcLong
                             closingLong False [])) - set (trades traderWithoutRow)
        \<and> PnL r = pnlFromFields r \<and> PnL r = 100 / 3)
   \<and> (\<exists>r. trades (recordTradeHistoryFromPosition baseTrader seeingRecorder ''long'' ''BTCUSDT''
                     closingLong True stopLossReason) = [r]
        \<and> r \<in> set (trades (recordTradeHistoryFromPosition baseTrader seeingRecorder ''long''
                             ''BTCUSDT'' closingLong True stopLossReason)) - set (trades baseTrader)
        \<and> PnL r = pnlFromFields r \<and> PnL r = 100 / 3)
   \<and> (\<exists>r. trades (snd (SyncManualTradesFromExchange baseTrader manualCloseSync)) = [r]
        \<and> r \<in> set (trades (snd (SyncManualTradesFromExchange baseTrader manualCloseSync)))
              - set (trades baseTrader)
        \<and> PnLPct r = pnlPctOfMargin (PnL r) r \<and> PnL r = 1234 / 100)"
proof -
  obtain r1 where r1: "trades (recordTradeHistory traderWithoutRow quietRecorder ''long''
                                 closeBtcLong closingLong False []) = [r1]"
    and p1: "PnL r1 = 100 / 3"
    by (simp add: recordTradeHistory_def quietRecorder_def traderWithoutRow_def baseTrader_def
        GetLatestRecords_def openCycleRecord_def hasBeenClosed_def parsedActions_def
        closedBefore_def openCandidate_def actionSideOf_def openedLong_def closingLong_def
        closeBtcLong_def mkDecision_def t0_def t1_def duration_units LogTrade_def
        insertConflict_def buildTradeRecord_def Let_def)
  obtain r2 where r2: "trades (recordTradeHistoryFromPosition baseTrader seeingRecorder ''long''
                                 ''BTCUSDT'' closingLong True stopLossReason) = [r2]"
    and p2: "PnL r2 = 100 / 3"
    by (simp add: recordTradeHistoryFromPosition_def recoverOpenSide_def reconstructedOpen_def
        seeingRecorder_def losingLong_def baseTrader_def GetLatestRecords_def closingLong_def
        posKeyOf_def t1_def duration_units LogTrade_def insertConflict_def buildTradeRecord_def
        truncInt_def Let_def)
  obtain r3 where r3: "trades (snd (SyncManualTradesFromExchange baseTrader manualCloseSync)) = [r3]"
    and p3: "PnL r3 = 1234 / 100"
    using manual_close_row
    by (cases "trades (snd (SyncManualTradesFromExchange baseTrader manualCloseSync))")
       (auto split: list.splits)
  have e0: "trades traderWithoutRow = []" and e1: "trades baseTrader = []"
    by (simp_all add: traderWithoutRow_def baseTrader_def)
  from C8_pnl_of_rows [where tr = traderWithoutRow and env = quietRecorder and side = "''long''"
      and dec = closeBtcLong and a = closingLong and f = False and fr = "[]"] r1 e0
  have a1: "PnL r1 = pnlFromFields r1" by simp
  from C8_pnl_of_rows [where tr = baseTrader and env = seeingRecorder and side = "''long''"
      and symbol = "''BTCUSDT''" and a = closingLong and f = True and fr = stopLossReason
      and senv = manualCloseSync] r2 r3 e1
  have a2: "PnL r2 = pnlFromFields r2" and a3: "PnLPct r3 = pnlPctOfMargin (PnL r3) r3"
    by simp_all
  from r1 r2 r3 p1 p2 p3 a1 a2 a3 e0 e1 show ?thesis by simp
qed

subsection \<open>C2: an open writes no trade row\<close>

text \<open>
  What an open does: whatever its outcome, the trade table is as before; when it
  succeeds, the action record carries the current price and the lot-rounded quantity
  \<open>size_usd / price\<close>, and the first-seen time of the position is recorded.
\<close>

lemma open_leaves_trade_table:
  "trades (snd (snd (executeOpenWithRecord side tr env dec a))) = trades tr
   \<and> (fst (executeOpenWithRecord side tr env dec a) = Inr () \<longrightarrow>
        (\<exists>P q. opMarket2 env = Some P \<and> 0 < P
               \<and> opFormatQuantity env (Symbol dec) (PositionSizeUSD dec / P) = Formatted q
               \<and> Price (fst (snd (executeOpenWithRecord side tr env dec a))) = P
               \<and> Quantity (fst (snd (executeOpenWithRecord side tr env dec a))) = q)
        \<and> positionFirstSeenTime (snd (snd (executeOpenWithRecord side tr env dec a)))
             (posKeyOf (Symbol dec) side) = Some (opNowMs env))"
  by (auto simp add: executeOpenWithRecord_def recordOpenedPosition_def Let_def
      split: option.splits sum.splits format_result.splits if_splits)

text \<open>
  C2: the open of scenario 1 (\<^verbatim>\<open>open_long\<close> BTCUSDT, 2000 USD at 60000, leverage 10,
  stop 58000, take 62000) on a trader with an empty trade table succeeds, the action
  record carries the price 60000 and the quantity 0.033, the stop is saved in the
  position-logic table, and the trade table is still empty: no row with
  \<open>open_price = 60000\<close> was created.
\<close>

theorem C2_open_creates_no_row:
  "fst (executeOpenLongWithRecord baseTrader happyOpenEnv happyOpen zeroAction) = Inr ()
   \<and> Price (fst (snd (executeOpenLongWithRecord baseTrader happyOpenEnv happyOpen zeroAction)))
       = 60000
   \<and> Quantity (fst (snd (executeOpenLongWithRecord baseTrader happyOpenEnv happyOpen zeroAction)))
       = 33 / 1000
   \<and> map_option lStopLoss
        (storage (positionLogicManager
           (snd (snd (executeOpenLongWithRecord baseTrader happyOpenEnv happyOpen zeroAction))))
           (''BTCUSDT'', ''long'')) = Some 58000
   \<and> trades (snd (snd (executeOpenLongWithRecord baseTrader happyOpenEnv happyOpen zeroAction)))
       = []"
  by (simp add: executeOpenLongWithRecord_def executeOpenWithRecord_def happyOpenEnv_def
      happyOpen_def mkDecision_def baseTrader_def emptyWrapper_def hasPosition_def
      checkMarginAndBalanceSafety_def freshAccount_def isSingleSymbol_def priceDistancePct_def
      estimatedLiquidationPrice_def marginRate_def margin_constants lotRound_def
      MinPositionSizeUSD_def recordOpenedPosition_def SaveFirstSeenTime_def
      SaveStopLossAndTakeProfit_def storageSaveStopLossAndTakeProfit_def storageGetLogic_def
      SaveEntryLogic_def SaveExitLogic_def upsertRow_def updateCache_def emptyLogic_def
      posKeyOf_def Let_def)

subsection \<open>C6: the stored stop only moves in the favourable direction\<close>

text \<open>Reads leave the table alone; a save writes the new stop or nothing.\<close>

lemma GetLogic_storage [simp]: "storage (snd (GetLogic w s sd ok)) = storage w"
  by (simp add: GetLogic_def storageGetLogic_def Let_def split: option.splits sum.splits)

lemma GetLogic_read:
  "storage w (s, sd) = Some l \<Longrightarrow> fst (GetLogic w s sd True) = Some (l\<lparr>FirstSeenTime := 0\<rparr>)"
  by (simp add: GetLogic_def storageGetLogic_def Let_def)

lemma saveNewStop_storage:
  assumes "storage w (s, sd) = Some l" and "0 < sl"
  shows "\<exists>l'. storage (saveNewStop w env s sd sl tp) (s, sd) = Some l'
              \<and> (lStopLoss l' = sl \<or> lStopLoss l' = lStopLoss l)"
  using assms
  by (auto simp add: saveNewStop_def SaveStopLossAndTakeProfit_def
      storageSaveStopLossAndTakeProfit_def storageGetLogic_def Let_def
      split: option.splits sum.splits prod.splits if_splits)

lemma validateStop_trailing:
  "validateStop sd dec price (Some l) = None \<Longrightarrow>
     (sd = ''long'' \<longrightarrow> 0 < lStopLoss l \<longrightarrow> lStopLoss l \<le> StopLoss dec)
     \<and> (sd \<noteq> ''long'' \<longrightarrow> 0 < lStopLoss l \<longrightarrow> StopLoss dec \<le> lStopLoss l)"
  by (auto simp add: validateStop_def split: if_splits)

text \<open>
  C6, as stated, fails in its last clause: on the long of scenario 3 (stored stop 58000)
  a request for 57900, a stop in the unfavourable direction, is not rejected with an
  error; it differs from the stored stop by less than 0.5 per cent and is skipped as a
  no-op (the call returns \<^verbatim>\<open>nil\<close> and the stored stop stays). A request for 57500 is
  rejected.
\<close>

theorem C6_counterexample:
  "StopLoss (updateStopTo 57900) < lStopLoss storedLogic
   \<and> fst (executeUpdateStopLoss traderWithStop calmUpdate (updateStopTo 57900) zeroAction) = Inr ()
   \<and> fst (executeUpdateStopLoss traderWithStop calmUpdate (updateStopTo 57500) zeroAction)
       = Inl StopMovesDown"
  by (simp add: executeUpdateStopLoss_def traderWithStop_def calmUpdate_def updateStopTo_def
      mkDecision_def findPositionBySymbol_def heldLong_def GetLogic_def storageGetLogic_def
      storedLogic_def smallChange_def baseTrader_def validateStop_def posKeyOf_def Let_def)

text \<open>
  C6, amended. Let the position found for the symbol have a row in the position-logic
  table with stop \<open>s0\<close>, and let the read of that row for the trailing check succeed.
  For every accepted \<^verbatim>\<open>update_sl\<close> request (executed or skipped) the row is still
  there afterwards and its stop is \<open>\<ge> s0\<close> for a long and, when \<open>s0 > 0\<close>,
  \<open>\<le> s0\<close> for any other side. A request whose stop differs from \<open>s0 > 0\<close> by less
  than 0.5 per cent is skipped as a no-op in either direction: it is accepted and the
  table is unchanged. A request in the unfavourable direction that is not such a no-op
  is rejected with an error.
\<close>

theorem C6_stop_only_moves_favourably:
  assumes pos: "findPositionBySymbol (upPositions env) (Symbol dec) = Inr p"
    and stored: "storage (positionLogicManager tr) (Symbol dec, pSide p) = Some l"
    and rd: "upLogicOk2 env"
  shows "(fst (executeUpdateStopLoss tr env dec a) = Inr () \<longrightarrow>
           (\<exists>l'. storage (positionLogicManager (snd (snd (executeUpdateStopLoss tr env dec a))))
                    (Symbol dec, pSide p) = Some l'
                 \<and> (pSide p = ''long'' \<longrightarrow> lStopLoss l \<le> lStopLoss l')
                 \<and> (pSide p \<noteq> ''long'' \<and> 0 < lStopLoss l \<longrightarrow> lStopLoss l' \<le> lStopLoss l)))
         \<and> (upLogicOk1 env \<and> 0 < StopLoss dec \<and> smallChange (Some l) dec \<longrightarrow>
              fst (executeUpdateStopLoss tr env dec a) = Inr ()
              \<and> storage (positionLogicManager (snd (snd (executeUpdateStopLoss tr env dec a))))
                  = storage (positionLogicManager tr))
         \<and> (upLogicOk1 env \<and> 0 < lStopLoss l \<and> \<not> smallChange (Some l) dec
              \<and> ((pSide p = ''long'' \<and> StopLoss dec < lStopLoss l)
                  \<or> (pSide p \<noteq> ''long'' \<and> lStopLoss l < StopLoss dec)) \<longrightarrow>
              fst (executeUpdateStopLoss tr env dec a) \<noteq> Inr ())"
proof -
  obtain ex plm1 where g1: "GetLogic (positionLogicManager tr) (Symbol dec) (pSide p) (upLogicOk1 env)
                              = (ex, plm1)"
    by (cases "GetLogic (positionLogicManager tr) (Symbol dec) (pSide p) (upLogicOk1 env)")
  have s1: "storage plm1 = storage (positionLogicManager tr)"
    using g1 GetLogic_storage [of "positionLogicManager tr" "Symbol dec" "pSide p" "upLogicOk1 env"]
    by simp
  obtain old plm2 where g2: "GetLogic plm1 (Symbol dec) (pSide p) (upLogicOk2 env) = (old, plm2)"
    by (cases "GetLogic plm1 (Symbol dec) (pSide p) (upLogicOk2 env)")
  have s2: "storage plm2 = storage (positionLogicManager tr)"
    using g2 s1 GetLogic_storage [of plm1 "Symbol dec" "pSide p" "upLogicOk2 env"] by simp
  have o2: "old = Some (l\<lparr>FirstSeenTime := 0\<rparr>)"
    using g2 rd stored s1 GetLogic_read [of plm1 "Symbol dec" "pSide p" l] by simp
  have e1: "upLogicOk1 env \<Longrightarrow> ex = Some (l\<lparr>FirstSeenTime := 0\<rparr>)"
    using g1 stored GetLogic_read [of "positionLogicManager tr" "Symbol dec" "pSide p" l] by simp
  have sm: "smallChange (Some (l\<lparr>FirstSeenTime := 0\<rparr>)) dec = smallChange (Some l) dec"
    by (simp add: smallChange_def)
  have part1: "fst (executeUpdateStopLoss tr env dec a) = Inr () \<longrightarrow>
           (\<exists>l'. storage (positionLogicManager (snd (snd (executeUpdateStopLoss tr env dec a))))
                    (Symbol dec, pSide p) = Some l'
                 \<and> (pSide p = ''long'' \<longrightarrow> lStopLoss l \<le> lStopLoss l')
                 \<and> (pSide p \<noteq> ''long'' \<and> 0 < lStopLoss l \<longrightarrow> lStopLoss l' \<le> lStopLoss l))"
  proof
    assume acc: "fst (executeUpdateStopLoss tr env dec a) = Inr ()"
    show "\<exists>l'. storage (positionLogicManager (snd (snd (executeUpdateStopLoss tr env dec a))))
                    (Symbol dec, pSide p) = Some l'
                 \<and> (pSide p = ''long'' \<longrightarrow> lStopLoss l \<le> lStopLoss l')
                 \<and> (pSide p \<noteq> ''long'' \<and> 0 < lStopLoss l \<longrightarrow> lStopLoss l' \<le> lStopLoss l)"
    proof (cases "smallChange ex dec")
      case True
      then have "storage (positionLogicManager (snd (snd (executeUpdateStopLoss tr env dec a))))
                   = storage (positionLogicManager tr)"
        using acc pos g1 s1 by (simp add: executeUpdateStopLoss_def split: if_splits)
      with stored show ?thesis by simp
    next
      case False
      from acc pos g1 g2 False have pos0: "0 < StopLoss dec"
        by (simp add: executeUpdateStopLoss_def split: if_splits)
      from acc pos g1 g2 False o2 obtain price where
        v: "validateStop (pSide p) dec price (Some (l\<lparr>FirstSeenTime := 0\<rparr>)) = None"
        and fin: "positionLogicManager (snd (snd (executeUpdateStopLoss tr env dec a)))
                    = saveNewStop plm2 env (Symbol dec) (pSide p) (StopLoss dec)
                        (preserveTakeProfit dec old)"
        by (auto simp add: executeUpdateStopLoss_def Let_def split: if_splits option.splits)
      from s2 stored have "storage plm2 (Symbol dec, pSide p) = Some l" by simp
      from saveNewStop_storage [OF this pos0, of env "preserveTakeProfit dec old"]
      obtain l' where l': "storage (saveNewStop plm2 env (Symbol dec) (pSide p) (StopLoss dec)
                                      (preserveTakeProfit dec old)) (Symbol dec, pSide p) = Some l'"
        and cases: "lStopLoss l' = StopLoss dec \<or> lStopLoss l' = lStopLoss l"
        by blast
      from validateStop_trailing [OF v] have
        tl: "pSide p = ''long'' \<longrightarrow> 0 < lStopLoss l \<longrightarrow> lStopLoss l \<le> StopLoss dec"
        and ts: "pSide p \<noteq> ''long'' \<longrightarrow> 0 < lStopLoss l \<longrightarrow> StopLoss dec \<le> lStopLoss l"
        by simp_all
      from l' fin cases tl ts pos0 show ?thesis
        by (intro exI [of _ l']) (auto simp add: not_less)
    qed
  qed
  have part2: "upLogicOk1 env \<and> 0 < StopLoss dec \<and> smallChange (Some l) dec \<longrightarrow>
              fst (executeUpdateStopLoss tr env dec a) = Inr ()
              \<and> storage (positionLogicManager (snd (snd (executeUpdateStopLoss tr env dec a))))
                  = storage (positionLogicManager tr)"
    using pos g1 s1 e1 sm by (auto simp add: executeUpdateStopLoss_def)
  have part3: "upLogicOk1 env \<and> 0 < lStopLoss l \<and> \<not> smallChange (Some l) dec
              \<and> ((pSide p = ''long'' \<and> StopLoss dec < lStopLoss l)
                  \<or> (pSide p \<noteq> ''long'' \<and> lStopLoss l < StopLoss dec)) \<longrightarrow>
              fst (executeUpdateStopLoss tr env dec a) \<noteq> Inr ()"
    using pos g1 g2 e1 o2 sm
    by (auto simp add: executeUpdateStopLoss_def validateStop_def Let_def
        split: if_splits option.splits)
  from part1 part2 part3 show ?thesis by blast
qed

theorem C6_stop_only_moves_favourably_witness:
  "findPositionBySymbol (upPositions calmUpdate) (Symbol (updateStopTo 58500)) = Inr heldLong
   \<and> storage (positionLogicManager traderWithStop) (''BTCUSDT'', pSide heldLong) = Some storedLogic
   \<and> upLogicOk1 calmUpdate \<and> upLogicOk2 calmUpdate
   \<and> fst (executeUpdateStopLoss traderWithStop calmUpdate (updateStopTo 58500) zeroAction) = Inr ()
   \<and> (\<exists>l'. storage (positionLogicManager (snd (snd (executeUpdateStopLoss traderWithStop
                 calmUpdate (updateStopTo 58500) zeroAction)))) (''BTCUSDT'', ''long'') = Some l'
           \<and> lStopLoss storedLogic \<le> lStopLoss l')
   \<and> smallChange (Some storedLogic) (updateStopTo 57900)
   \<and> storage (positionLogicManager (snd (snd (executeUpdateStopLoss traderWithStop calmUpdate
                 (updateStopTo 57900) zeroAction)))) = storage (positionLogicManager traderWithStop)
   \<and> \<not> smallChange (Some storedLogic) (updateStopTo 57500)
   \<and> fst (executeUpdateStopLoss traderWithStop calmUpdate (updateStopTo 57500) zeroAction) \<noteq> Inr ()"
proof -
  have sy: "Symbol (updateStopTo s) = ''BTCUSDT''" and sl: "StopLoss (updateStopTo s) = s" for s
    by (simp_all add: updateStopTo_def mkDecision_def)
  have pos: "findPositionBySymbol (upPositions calmUpdate) (Symbol (updateStopTo s)) = Inr heldLong"
    for s
    by (simp add: sy findPositionBySymbol_def calmUpdate_def heldLong_def)
  have sd: "pSide heldLong = ''long''" by (simp add: heldLong_def)
  have stored: "storage (positionLogicManager traderWithStop)
                  (Symbol (updateStopTo s), pSide heldLong) = Some storedLogic" for s
    by (simp add: sy sd traderWithStop_def)
  have rd: "upLogicOk2 calmUpdate" and rd1: "upLogicOk1 calmUpdate"
    by (simp_all add: calmUpdate_def)
  have acc: "fst (executeUpdateStopLoss traderWithStop calmUpdate (updateStopTo 58500) zeroAction)
               = Inr ()"
    by (simp add: executeUpdateStopLoss_def traderWithStop_def calmUpdate_def updateStopTo_def
        mkDecision_def findPositionBySymbol_def heldLong_def GetLogic_def storageGetLogic_def
        storedLogic_def smallChange_def baseTrader_def validateStop_def posKeyOf_def
        replaceOrders_def preserveTakeProfit_def Let_def)
  have small: "smallChange (Some storedLogic) (updateStopTo 57900)"
    and big: "\<not> smallChange (Some storedLogic) (updateStopTo 57500)"
    and s0: "0 < lStopLoss storedLogic"
    by (simp_all add: smallChange_def storedLogic_def sl)
  from C6_stop_only_moves_favourably [OF pos stored rd, of 58500 zeroAction] acc sd sy
  have w1: "\<exists>l'. storage (positionLogicManager (snd (snd (executeUpdateStopLoss traderWithStop
                 calmUpdate (updateStopTo 58500) zeroAction)))) (''BTCUSDT'', ''long'') = Some l'
           \<and> lStopLoss storedLogic \<le> lStopLoss l'"
    by auto
  from C6_stop_only_moves_favourably [OF pos stored rd, of 57900 zeroAction] rd1 small sl
  have w2: "storage (positionLogicManager (snd (snd (executeUpdateStopLoss traderWithStop calmUpdate
                 (updateStopTo 57900) zeroAction)))) = storage (positionLogicManager traderWithStop)"
    by simp
  from C6_stop_only_moves_favourably [OF pos stored rd, of 57500 zeroAction] rd1 big s0 sd sl
  have w3: "fst (executeUpdateStopLoss traderWithStop calmUpdate (updateStopTo 57500) zeroAction)
              \<noteq> Inr ()"
    by (simp add: storedLogic_def)
  from pos [of 58500] stored [of 58500] rd rd1 acc w1 small w2 big w3 sy show ?thesis
    by simp
qed


end
